theory Spec2Isabelle
  imports Main "HOL-Library.Sublist"
begin

section \<open>Status aggregation\<close>

text \<open>
  The policy-side status constants of \<^verbatim>\<open>gp_const\<close>. A resource dictionary handed to
  \<^verbatim>\<open>_merge_gbp_status\<close> may carry any other value under its \<^verbatim>\<open>'status'\<close> key
  (a network reports \<^verbatim>\<open>DOWN\<close>, for instance); \<open>STATUS_OTHER\<close> stands for those.
\<close>

datatype gbp_status = STATUS_ACTIVE | STATUS_BUILD | STATUS_ERROR | STATUS_OTHER string

text \<open>
  What \<^verbatim>\<open>self.aim.get_status\<close> returns for a fabric object is either nothing or a status
  object answering \<^verbatim>\<open>is_error()\<close> and \<^verbatim>\<open>is_build()\<close>.
\<close>

record aim_status =
  is_error :: bool
  is_build :: bool

text \<open>\<^verbatim>\<open>_map_aim_status\<close>, applied to the fetched status of one fabric object.\<close>

definition map_aim_status :: "aim_status option \<Rightarrow> gbp_status" where
  "map_aim_status fetched =
     (case fetched of
        None \<Rightarrow> STATUS_BUILD
      | Some st \<Rightarrow>
          if is_error st then STATUS_ERROR
          else if is_build st then STATUS_BUILD
          else STATUS_ACTIVE)"

text \<open>
  The loop of \<^verbatim>\<open>_merge_aim_status\<close>; the first argument is \<^verbatim>\<open>merged_status\<close>, the list
  holds the fetched status of every object of \<^verbatim>\<open>aim_resource_obj_list\<close>, in order.
  Leaving the recursion is the \<^verbatim>\<open>break\<close>.
\<close>

fun merge_aim_loop :: "gbp_status \<Rightarrow> aim_status option list \<Rightarrow> gbp_status" where
  "merge_aim_loop merged_status [] = merged_status"
| "merge_aim_loop merged_status (aim_obj # rest) =
     (let status = map_aim_status aim_obj;
          merged = (if status \<noteq> STATUS_ACTIVE then status else merged_status)
      in if merged = STATUS_ERROR then merged else merge_aim_loop merged rest)"

definition merge_aim_status :: "aim_status option list \<Rightarrow> gbp_status" where
  "merge_aim_status aim_resource_obj_list = merge_aim_loop STATUS_ACTIVE aim_resource_obj_list"

text \<open>
  The loop of \<^verbatim>\<open>_merge_gbp_status\<close> over the \<^verbatim>\<open>'status'\<close> entries of the resources.
\<close>

fun merge_gbp_loop :: "gbp_status \<Rightarrow> gbp_status list \<Rightarrow> gbp_status" where
  "merge_gbp_loop merged_status [] = merged_status"
| "merge_gbp_loop merged_status (st # rest) =
     (if st = STATUS_BUILD then merge_gbp_loop STATUS_BUILD rest
      else if st = STATUS_ERROR then STATUS_ERROR
      else merge_gbp_loop merged_status rest)"

definition merge_gbp_status :: "gbp_status list \<Rightarrow> gbp_status" where
  "merge_gbp_status gbp_resource_list = merge_gbp_loop STATUS_ACTIVE gbp_resource_list"

text \<open>The status a set of statuses has under the priority ERROR > BUILD > ACTIVE.\<close>

definition highest_priority :: "gbp_status set \<Rightarrow> gbp_status" where
  "highest_priority S =
     (if STATUS_ERROR \<in> S then STATUS_ERROR
      else if STATUS_BUILD \<in> S then STATUS_BUILD
      else STATUS_ACTIVE)"


section \<open>Errors\<close>

text \<open>
  Every exception the driver raises itself is a constructor of its own.
  \<open>BareException\<close> is the \<^verbatim>\<open>raise Exception\<close> of the classifier update,
  \<open>AttributeError\<close> an attribute read on \<^verbatim>\<open>None\<close>, \<open>TypeError\<close> what Python 2 raises
  for a \<^verbatim>\<open>raise\<close> with no active exception and for \<^verbatim>\<open>hashlib.md5(None)\<close>.
  \<open>DBDuplicateEntry\<close> is the fabric store refusing a second row with the same identity.
  An exception that comes out of a collaborator outside this file (the group-policy
  plugin, the network-resource service) is \<open>Collaborator\<close> with the exception's name.
\<close>

datatype error =
    SimultaneousV4V6AddressScopesNotSupportedOnAimDriver
  | SimultaneousV4V6SubnetpoolsNotSupportedOnAimDriver
  | InconsistentAddressScopeSubnetpool
  | NoAddressScopeForSubnetpool
  | AutoPTGDeleteNotSupported string
  | SharedAttributeUpdateNotSupported string
  | L3PolicyMultipleRoutersNotSupported
  | ExplicitSubnetAssociationNotSupported
  | HierarchicalContractsNotSupported
  | OnlyOneAddressIsAllowedPerExternalSegment
  | OnlyOneL3PolicyIsAllowedPerExternalSegment
  | BareException
  | AttributeError
  | TypeError
  | DBDuplicateEntry
  | Collaborator string

text \<open>Lifting a collaborator's result: its exception leaves the driver unchanged.\<close>

definition collab :: "string + 'a \<Rightarrow> error + 'a" where
  "collab r = (case r of Inl exn \<Rightarrow> Inl (Collaborator exn) | Inr v \<Rightarrow> Inr v)"


section \<open>The fabric object store\<close>

text \<open>
  The fabric resources the driver writes, with the attributes it sets. Attributes of a
  mapped filter entry other than its names are the dictionary that
  \<^verbatim>\<open>alib.map_to_aim_filter_entry\<close> returns, kept as an association list.
\<close>

type_synonym attrs = "(string \<times> string) list"

record Contract =
  ct_tenant_name :: string
  ct_name :: string
  ct_display_name :: string

record Filter =
  f_tenant_name :: string
  f_name :: string
  f_display_name :: string

record FilterEntry =
  fe_tenant_name :: string
  fe_filter_name :: string
  fe_name :: string
  fe_display_name :: string
  fe_attrs :: attrs

record ContractSubject =
  cs_tenant_name :: string
  cs_contract_name :: string
  cs_name :: string
  cs_display_name :: string
  in_filters :: "string list"
  out_filters :: "string list"
  bi_filters :: "string list"

record EndpointGroup =
  epg_tenant_name :: string
  epg_app_profile_name :: string
  epg_name :: string
  epg_display_name :: string
  bd_name :: string
  bd_tenant_name :: string
  provided_contract_names :: "string list"
  consumed_contract_names :: "string list"
  openstack_vmm_domain_names :: "string list"
  physical_domain_names :: "string list"

text \<open>The identity attributes of each resource class.\<close>

definition contract_identity :: "Contract \<Rightarrow> string \<times> string" where
  "contract_identity c = (ct_tenant_name c, ct_name c)"

definition filter_identity :: "Filter \<Rightarrow> string \<times> string" where
  "filter_identity f = (f_tenant_name f, f_name f)"

definition filter_entry_identity :: "FilterEntry \<Rightarrow> string \<times> string \<times> string" where
  "filter_entry_identity e = (fe_tenant_name e, fe_filter_name e, fe_name e)"

definition contract_subject_identity :: "ContractSubject \<Rightarrow> string \<times> string \<times> string" where
  "contract_subject_identity s = (cs_tenant_name s, cs_contract_name s, cs_name s)"

definition epg_identity :: "EndpointGroup \<Rightarrow> string \<times> string \<times> string" where
  "epg_identity g = (epg_tenant_name g, epg_app_profile_name g, epg_name g)"

text \<open>
  Modelled from the spec: the fabric object store (the \<^verbatim>\<open>aim\<close> library, outside this
  file), with the interface the specification gives it: \<^verbatim>\<open>get(resourceKey)\<close> returns the
  resource or none, \<^verbatim>\<open>find(filter)\<close> a list, \<^verbatim>\<open>create(resource, overwrite)\<close> writes and
  \<^verbatim>\<open>delete(resource)\<close> removes. A table is the list of its rows; a row is found by the
  identity attributes of the resource. A create with \<^verbatim>\<open>overwrite\<close> replaces the row of
  the same identity where it stands; without it a second row of one identity is refused.
  Deleting a resource that is not there does nothing.
\<close>

definition aim_get :: "('a \<Rightarrow> 'k) \<Rightarrow> 'a list \<Rightarrow> 'a \<Rightarrow> 'a option" where
  "aim_get ident table res = find (\<lambda>row. ident row = ident res) table"

definition aim_create :: "('a \<Rightarrow> 'k) \<Rightarrow> 'a list \<Rightarrow> 'a \<Rightarrow> bool \<Rightarrow> error + 'a list" where
  "aim_create ident table res overwrite =
     (if list_ex (\<lambda>row. ident row = ident res) table
      then (if overwrite
            then Inr (map (\<lambda>row. if ident row = ident res then res else row) table)
            else Inl DBDuplicateEntry)
      else Inr (table @ [res]))"

definition aim_delete :: "('a \<Rightarrow> 'k) \<Rightarrow> 'a list \<Rightarrow> 'a \<Rightarrow> 'a list" where
  "aim_delete ident table res = filter (\<lambda>row. ident row \<noteq> ident res) table"

record aim_db =
  contracts :: "Contract list"
  contract_subjects :: "ContractSubject list"
  filters :: "Filter list"
  filter_entries :: "FilterEntry list"
  endpoint_groups :: "EndpointGroup list"

text \<open>\<^verbatim>\<open>aim.find(ctx, FilterEntry, tenant_name=..., filter_name=...)\<close>.\<close>

definition find_filter_entries :: "aim_db \<Rightarrow> string \<Rightarrow> string \<Rightarrow> FilterEntry list" where
  "find_filter_entries db tenant_name filter_name =
     filter (\<lambda>e. fe_tenant_name e = tenant_name \<and> fe_filter_name e = filter_name)
       (filter_entries db)"


section \<open>What the driver is configured with\<close>

text \<open>
  The name mapper of the mechanism driver, taken as given: \<^verbatim>\<open>tenant(session, id)\<close>,
  \<^verbatim>\<open>network(session, id, name)\<close>, \<^verbatim>\<open>policy_rule(session, id, resource_name, prefix)\<close>
  and \<^verbatim>\<open>policy_rule_set(session, resource_id, resource_name, prefix)\<close>; a keyword
  argument that the caller leaves out is \<open>None\<close>.
\<close>

record name_mapper =
  nm_tenant :: "string \<Rightarrow> string"
  nm_network :: "string \<Rightarrow> string \<Rightarrow> string"
  nm_policy_rule :: "string \<Rightarrow> string option \<Rightarrow> string option \<Rightarrow> string"
  nm_policy_rule_set :: "string option \<Rightarrow> string option \<Rightarrow> string option \<Rightarrow> string"

text \<open>
  The constants, tables and the attribute mapping that the driver reads from
  \<^verbatim>\<open>apic_mapping_lib\<close> (\<^verbatim>\<open>alib\<close>), taken as given.
\<close>

record alib =
  REVERSE_PREFIX :: string
  SERVICE_PREFIX :: string
  IMPLICIT_PREFIX :: string
  PER_PROJECT :: string
  REVERSIBLE_PROTOCOLS :: "string list"
  get_service_contract_filter_entries :: "(string \<times> attrs) list"
  get_arp_filter_entry :: "(string \<times> attrs) list"
  map_to_aim_filter_entry :: "attrs \<Rightarrow> attrs"

text \<open>
  The driver object: its name mapper, the library, the application profile name of the
  mechanism driver, \<^verbatim>\<open>aim_utils.sanitize_display_name\<close>, \<^verbatim>\<open>hashlib.md5(...).hexdigest()\<close>
  and the configuration option \<^verbatim>\<open>create_auto_ptg\<close>.
\<close>

record driver =
  name_mapper :: name_mapper
  lib :: alib
  ap_name :: string
  sanitize_display_name :: "string \<Rightarrow> string"
  md5_hexdigest :: "string \<Rightarrow> string"
  create_auto_ptg :: bool

definition FORWARD :: string where "FORWARD = ''Forward''"
definition REVERSE :: string where "REVERSE = ''Reverse''"
definition AUTO_PTG_NAME_PREFIX :: string where "AUTO_PTG_NAME_PREFIX = ''auto-ptg-''"
definition AUTO_PTG_PREFIX :: string where "AUTO_PTG_PREFIX = ''auto''"
definition APIC_OWNED :: string where "APIC_OWNED = ''apic_owned_''"

text \<open>
  Modelled from the spec: the direction constants \<^verbatim>\<open>GP_DIRECTION_IN\<close> and
  \<^verbatim>\<open>GP_DIRECTION_OUT\<close> of the group-policy constants module (outside this file); the
  specification names the directions in, out and, otherwise, bidirectional.
\<close>

definition GP_DIRECTION_IN :: string where "GP_DIRECTION_IN = ''in''"
definition GP_DIRECTION_OUT :: string where "GP_DIRECTION_OUT = ''out''"

definition aim_display_name :: "driver \<Rightarrow> string \<Rightarrow> string" where
  "aim_display_name D name = sanitize_display_name D name"

definition aim_tenant_name :: "driver \<Rightarrow> string \<Rightarrow> string" where
  "aim_tenant_name D tenant_id = nm_tenant (name_mapper D) tenant_id"

text \<open>Python's truth value of a string that may be \<^verbatim>\<open>None\<close>, and \<^verbatim>\<open>x in xs\<close>.\<close>

definition truthy :: "string option \<Rightarrow> bool" where
  "truthy x = (case x of None \<Rightarrow> False | Some s \<Rightarrow> s \<noteq> [])"

definition py_in :: "string option \<Rightarrow> string list \<Rightarrow> bool" where
  "py_in x xs = (case x of None \<Rightarrow> False | Some v \<Rightarrow> v \<in> set xs)"

text \<open>
  \<^verbatim>\<open>_aim_resource_by_name\<close>: a keyword argument goes to the name mapper only when it is
  truthy. The result is the tenant name, the mapped name and the display name that the
  resource class is then built from.
\<close>

definition kwarg :: "string option \<Rightarrow> string option" where
  "kwarg x = (if truthy x then x else None)"

definition aim_resource_by_name ::
  "driver \<Rightarrow> string \<Rightarrow> string option \<Rightarrow> string \<Rightarrow> string option \<Rightarrow> string \<times> string \<times> string" where
  "aim_resource_by_name D tenant_id gbp_resource_id gbp_resource_name prefix_kw =
     (let aim_name = nm_policy_rule_set (name_mapper D)
                       (kwarg gbp_resource_id) (kwarg (Some gbp_resource_name)) (kwarg prefix_kw);
          tenant_name = aim_tenant_name D tenant_id;
          display_name = aim_display_name D gbp_resource_name
      in (tenant_name, aim_name, display_name))"

definition as_Contract :: "string \<times> string \<times> string \<Rightarrow> Contract" where
  "as_Contract kw = (case kw of (tenant_name, name, display_name) \<Rightarrow>
     \<lparr>ct_tenant_name = tenant_name, ct_name = name, ct_display_name = display_name\<rparr>)"

definition as_Filter :: "string \<times> string \<times> string \<Rightarrow> Filter" where
  "as_Filter kw = (case kw of (tenant_name, name, display_name) \<Rightarrow>
     \<lparr>f_tenant_name = tenant_name, f_name = name, f_display_name = display_name\<rparr>)"

text \<open>Sequencing of steps that may raise: the first exception ends the run.\<close>

definition and_then :: "error + 'a \<Rightarrow> ('a \<Rightarrow> error + 'b) \<Rightarrow> error + 'b" where
  "and_then r k = (case r of Inl e \<Rightarrow> Inl e | Inr v \<Rightarrow> k v)"


section \<open>Traffic rules and classifiers\<close>

record policy_classifier =
  pc_id :: string
  direction :: "string option"
  protocol :: "string option"

record policy_rule =
  pr_id :: string
  pr_name :: string
  pr_tenant_id :: string
  policy_classifier_id :: string

record policy_rule_set =
  prs_id :: string
  prs_name :: string
  prs_tenant_id :: string
  child_policy_rule_sets :: "string list"
  policy_rules :: "string list"

text \<open>\<^verbatim>\<open>update_policy_classifier_precommit\<close> on \<^verbatim>\<open>context.original\<close> and \<^verbatim>\<open>context.current\<close>.\<close>

definition update_policy_classifier_precommit ::
  "driver \<Rightarrow> policy_classifier \<Rightarrow> policy_classifier \<Rightarrow> error + unit" where
  "update_policy_classifier_precommit D original current =
     (let o_dir = direction original;
          c_dir = direction current;
          o_prot = protocol original;
          c_prot = protocol current
      in if o_dir \<noteq> c_dir \<or>
            (py_in o_prot (REVERSIBLE_PROTOCOLS (lib D)) \<noteq>
             py_in c_prot (REVERSIBLE_PROTOCOLS (lib D)))
         then Inl BareException
         else Inr ())"


section \<open>The contract engine\<close>

text \<open>\<^verbatim>\<open>_aim_filter\<close>: the forward or the reverse-prefixed filter of a policy rule.\<close>

definition aim_filter :: "driver \<Rightarrow> policy_rule \<Rightarrow> bool \<Rightarrow> Filter" where
  "aim_filter D pr reverse_prefix =
     (let tenant_name = aim_tenant_name D (pr_tenant_id pr);
          display_name = aim_display_name D (pr_name pr);
          filter_name =
            (if reverse_prefix
             then nm_policy_rule (name_mapper D) (pr_id pr) (Some (pr_name pr))
                    (Some (REVERSE_PREFIX (lib D)))
             else nm_policy_rule (name_mapper D) (pr_id pr) (Some (pr_name pr)) None)
      in \<lparr>f_tenant_name = tenant_name, f_name = filter_name, f_display_name = display_name\<rparr>)"

text \<open>
  \<^verbatim>\<open>_aim_filter_entry\<close>; the mapped attributes are taken not to name the four
  attributes set here.
\<close>

definition aim_filter_entry :: "driver \<Rightarrow> Filter \<Rightarrow> string \<Rightarrow> attrs \<Rightarrow> FilterEntry" where
  "aim_filter_entry D flt filter_entry_name filter_entry_attrs =
     \<lparr>fe_tenant_name = f_tenant_name flt,
      fe_filter_name = f_name flt,
      fe_name = filter_entry_name,
      fe_display_name = aim_display_name D (f_name flt),
      fe_attrs = filter_entry_attrs\<rparr>"

definition create_aim_filter_entry ::
  "driver \<Rightarrow> aim_db \<Rightarrow> Filter \<Rightarrow> string \<Rightarrow> attrs \<Rightarrow> bool \<Rightarrow> error + aim_db" where
  "create_aim_filter_entry D db flt filter_entry_name filter_entry_attrs overwrite =
     and_then
       (aim_create filter_entry_identity (filter_entries db)
          (aim_filter_entry D flt filter_entry_name
             (map_to_aim_filter_entry (lib D) filter_entry_attrs))
          overwrite)
       (\<lambda>rows. Inr (db\<lparr>filter_entries := rows\<rparr>))"

text \<open>\<^verbatim>\<open>_create_aim_filter_entries\<close>: the dictionary of entries, in its iteration order.\<close>

fun create_aim_filter_entries ::
  "driver \<Rightarrow> aim_db \<Rightarrow> Filter \<Rightarrow> (string \<times> attrs) list \<Rightarrow> error + aim_db" where
  "create_aim_filter_entries D db flt [] = Inr db"
| "create_aim_filter_entries D db flt ((k, v) # rest) =
     (case create_aim_filter_entry D db flt k v False of
        Inl e \<Rightarrow> Inl e
      | Inr db' \<Rightarrow> create_aim_filter_entries D db' flt rest)"

text \<open>\<^verbatim>\<open>_delete_aim_filter_entries\<close>: every entry found under the filter is deleted.\<close>

definition delete_aim_filter_entries :: "aim_db \<Rightarrow> Filter \<Rightarrow> aim_db" where
  "delete_aim_filter_entries db flt =
     db\<lparr>filter_entries :=
          fold (\<lambda>entry rows. aim_delete filter_entry_identity rows entry)
            (find_filter_entries db (f_tenant_name flt) (f_name flt))
            (filter_entries db)\<rparr>"

text \<open>
  What \<^verbatim>\<open>alib.get_filter_entries_for_policy_rule\<close> returned for the rule: the forward
  entries and the reverse entries, each a dictionary (empty or \<^verbatim>\<open>None\<close> when there are
  none; both are falsy).
\<close>

record rule_filter_entries =
  forward_rules :: "(string \<times> attrs) list"
  reverse_rules :: "(string \<times> attrs) list"

text \<open>\<^verbatim>\<open>create_policy_rule_precommit\<close>.\<close>

definition create_policy_rule_precommit ::
  "driver \<Rightarrow> rule_filter_entries \<Rightarrow> policy_rule \<Rightarrow> aim_db \<Rightarrow> error + aim_db" where
  "create_policy_rule_precommit D entries current db =
     (if forward_rules entries \<noteq> [] then
        and_then (aim_create filter_identity (filters db) (aim_filter D current False) False)
          (\<lambda>rows.
        and_then (create_aim_filter_entries D (db\<lparr>filters := rows\<rparr>)
                    (aim_filter D current False) (forward_rules entries))
          (\<lambda>db1.
        if reverse_rules entries \<noteq> [] then
          and_then (aim_create filter_identity (filters db1) (aim_filter D current True) False)
            (\<lambda>rows'.
          create_aim_filter_entries D (db1\<lparr>filters := rows'\<rparr>)
            (aim_filter D current True) (reverse_rules entries))
        else Inr db1))
      else Inr db)"

text \<open>
  \<^verbatim>\<open>_get_aim_filters\<close>: the dictionary from \<^verbatim>\<open>Forward\<close> and \<^verbatim>\<open>Reverse\<close> to the filter
  fetched from the store, \<^verbatim>\<open>None\<close> when the store has none. The dictionary is kept as
  the list of its items, forward first.
\<close>

definition get_aim_filters :: "driver \<Rightarrow> aim_db \<Rightarrow> policy_rule \<Rightarrow> (string \<times> Filter option) list" where
  "get_aim_filters D db pr =
     [(FORWARD, aim_get filter_identity (filters db) (aim_filter D pr False)),
      (REVERSE, aim_get filter_identity (filters db) (aim_filter D pr True))]"

text \<open>
  The comprehension \<^verbatim>\<open>[f.name for f in aim_filters.values()]\<close>: reading \<^verbatim>\<open>.name\<close> of a
  value that is \<^verbatim>\<open>None\<close> raises.
\<close>

fun names_of :: "Filter option list \<Rightarrow> error + string list" where
  "names_of [] = Inr []"
| "names_of (None # rest) = Inl AttributeError"
| "names_of (Some f # rest) =
     (case names_of rest of Inl e \<Rightarrow> Inl e | Inr ns \<Rightarrow> Inr (f_name f # ns))"

definition get_aim_filter_names :: "driver \<Rightarrow> aim_db \<Rightarrow> policy_rule \<Rightarrow> error + string list" where
  "get_aim_filter_names D db pr = names_of (map snd (get_aim_filters D db pr))"

text \<open>\<^verbatim>\<open>_aim_contract\<close> and \<^verbatim>\<open>_aim_contract_subject\<close>.\<close>

definition aim_contract :: "driver \<Rightarrow> policy_rule_set \<Rightarrow> Contract" where
  "aim_contract D prs =
     as_Contract (aim_resource_by_name D (prs_tenant_id prs) (Some (prs_id prs)) (prs_name prs) None)"

definition aim_contract_subject ::
  "driver \<Rightarrow> Contract \<Rightarrow> string list \<Rightarrow> string list \<Rightarrow> string list \<Rightarrow> ContractSubject" where
  "aim_contract_subject D ct in_fs out_fs bi_fs =
     \<lparr>cs_tenant_name = ct_tenant_name ct,
      cs_contract_name = ct_name ct,
      cs_name = ct_name ct,
      cs_display_name = aim_display_name D (ct_name ct),
      in_filters = in_fs,
      out_filters = out_fs,
      bi_filters = bi_fs\<rparr>"

definition populate_aim_contract_subject_by_filters ::
  "driver \<Rightarrow> aim_db \<Rightarrow> Contract \<Rightarrow> string list \<Rightarrow> string list \<Rightarrow> string list \<Rightarrow> error + aim_db" where
  "populate_aim_contract_subject_by_filters D db ct in_fs out_fs bi_fs =
     and_then
       (aim_create contract_subject_identity (contract_subjects db)
          (aim_contract_subject D ct in_fs out_fs bi_fs) True)
       (\<lambda>rows. Inr (db\<lparr>contract_subjects := rows\<rparr>))"

definition delete_aim_contract_subject :: "driver \<Rightarrow> aim_db \<Rightarrow> Contract \<Rightarrow> aim_db" where
  "delete_aim_contract_subject D db ct =
     db\<lparr>contract_subjects :=
          aim_delete contract_subject_identity (contract_subjects db)
            (aim_contract_subject D ct [] [] [])\<rparr>"

text \<open>
  What the contract engine asks of the group-policy plugin: the rules with the given
  identifiers, and a classifier by identifier (an exception when there is none).
\<close>

record 'w prs_plugin =
  get_policy_rules :: "'w \<Rightarrow> string list \<Rightarrow> policy_rule list"
  get_policy_classifier :: "'w \<Rightarrow> string \<Rightarrow> string + policy_classifier"

text \<open>
  The loop of \<^verbatim>\<open>_populate_aim_contract_subject\<close>; the triple holds \<^verbatim>\<open>in_filters\<close>,
  \<^verbatim>\<open>out_filters\<close> and \<^verbatim>\<open>bi_filters\<close>.
\<close>

fun bucket_filters ::
  "driver \<Rightarrow> 'w prs_plugin \<Rightarrow> 'w \<Rightarrow> aim_db \<Rightarrow> policy_rule list \<Rightarrow>
   string list \<times> string list \<times> string list \<Rightarrow> error + string list \<times> string list \<times> string list" where
  "bucket_filters D P w db [] acc = Inr acc"
| "bucket_filters D P w db (rule # rest) (in_fs, out_fs, bi_fs) =
     (case get_aim_filter_names D db rule of
        Inl e \<Rightarrow> Inl e
      | Inr aim_filters \<Rightarrow>
          (case collab (get_policy_classifier P w (policy_classifier_id rule)) of
             Inl e \<Rightarrow> Inl e
           | Inr classifier \<Rightarrow>
               if direction classifier = Some GP_DIRECTION_IN
               then bucket_filters D P w db rest (in_fs @ aim_filters, out_fs, bi_fs)
               else if direction classifier = Some GP_DIRECTION_OUT
               then bucket_filters D P w db rest (in_fs, out_fs @ aim_filters, bi_fs)
               else bucket_filters D P w db rest (in_fs, out_fs, bi_fs @ aim_filters)))"

definition populate_aim_contract_subject ::
  "driver \<Rightarrow> 'w prs_plugin \<Rightarrow> 'w \<Rightarrow> aim_db \<Rightarrow> Contract \<Rightarrow> policy_rule list \<Rightarrow> error + aim_db" where
  "populate_aim_contract_subject D P w db ct rules =
     and_then (bucket_filters D P w db rules ([], [], []))
       (\<lambda>(in_fs, out_fs, bi_fs).
          populate_aim_contract_subject_by_filters D db ct in_fs out_fs bi_fs)"

text \<open>\<^verbatim>\<open>create_policy_rule_set_precommit\<close> and \<^verbatim>\<open>update_policy_rule_set_precommit\<close>.\<close>

definition create_policy_rule_set_precommit ::
  "driver \<Rightarrow> 'w prs_plugin \<Rightarrow> 'w \<Rightarrow> policy_rule_set \<Rightarrow> aim_db \<Rightarrow> error + aim_db" where
  "create_policy_rule_set_precommit D P w current db =
     (if child_policy_rule_sets current \<noteq> [] then Inl HierarchicalContractsNotSupported
      else
        and_then (aim_create contract_identity (contracts db) (aim_contract D current) False)
          (\<lambda>rows.
             populate_aim_contract_subject D P w (db\<lparr>contracts := rows\<rparr>)
               (aim_contract D current) (get_policy_rules P w (policy_rules current))))"

definition update_policy_rule_set_precommit ::
  "driver \<Rightarrow> 'w prs_plugin \<Rightarrow> 'w \<Rightarrow> policy_rule_set \<Rightarrow> aim_db \<Rightarrow> error + aim_db" where
  "update_policy_rule_set_precommit D P w current db =
     (if child_policy_rule_sets current \<noteq> [] then Inl HierarchicalContractsNotSupported
      else populate_aim_contract_subject D P w db
             (aim_contract D current) (get_policy_rules P w (policy_rules current)))"

section \<open>Endpoint groups\<close>

record policy_target_group =
  ptg_id :: string
  ptg_name :: string
  ptg_tenant_id :: string
  l2_policy_id :: "string option"
  subnets :: "string list"
  provided_policy_rule_sets :: "string list"
  consumed_policy_rule_sets :: "string list"
  shared :: bool

text \<open>
  A network with the distinguished name of its default endpoint group, kept as the
  identity (tenant, application profile, name) that \<^verbatim>\<open>EndpointGroup.from_dn\<close> reads
  from it.
\<close>

record network =
  net_id :: string
  net_name :: string
  net_tenant_id :: string
  default_epg_dn :: "string \<times> string \<times> string"

record l2_policy =
  l2p_id :: string
  l2p_name :: string
  l2p_tenant_id :: string
  network_id :: string
  l2p_shared :: bool
  policy_target_groups :: "policy_target_group list"

text \<open>
  What the endpoint-group operations ask of their collaborators, over a world \<open>'w\<close> that
  holds the plugin's tables and the network-resource service:
  the two mapping-table queries of \<^verbatim>\<open>apic_epg_name_for_policy_target_group\<close> (first row
  or none), \<^verbatim>\<open>_get_network\<close>, \<^verbatim>\<open>_get_policy_target_group\<close> and \<^verbatim>\<open>_get_l2_policy\<close> of the
  plugin (an exception when the row is missing), the write of a row's \<^verbatim>\<open>l2_policy_id\<close>,
  \<^verbatim>\<open>_create_implicit_l2_policy\<close> (which also sets \<^verbatim>\<open>l2_policy_id\<close> of the current
  group), \<^verbatim>\<open>get_aim_domains\<close> of the mechanism driver, \<^verbatim>\<open>_cleanup_l2_policy\<close>, and the
  steps of the implicit resource manager: the subnets of a bridging domain's network,
  the allocation from the subnet pool, \<^verbatim>\<open>context.add_subnets\<close>, the resynchronisation of
  the groups, the routing domain's routers, the router attachment, and the subnet
  clean-up on delete (\<^verbatim>\<open>_process_subnets_for_ptg_delete\<close>).
\<close>

record 'w ptg_plugin =
  query_ptg_mapping :: "'w \<Rightarrow> string \<Rightarrow> policy_target_group option"
  query_l2p_mapping :: "'w \<Rightarrow> string option \<Rightarrow> l2_policy option"
  get_network :: "'w \<Rightarrow> string \<Rightarrow> string + network"
  get_policy_target_group_row :: "'w \<Rightarrow> string \<Rightarrow> string + policy_target_group"
  get_l2_policy_row :: "'w \<Rightarrow> string option \<Rightarrow> string + l2_policy"
  set_row_l2_policy_id :: "string \<Rightarrow> string option \<Rightarrow> 'w \<Rightarrow> 'w"
  create_implicit_l2_policy ::
    "policy_target_group \<Rightarrow> 'w \<Rightarrow> string + policy_target_group \<times> 'w"
  get_aim_domains :: "'w \<Rightarrow> string list \<times> string list"
  cleanup_l2_policy :: "string \<Rightarrow> 'w \<Rightarrow> string + 'w"
  get_subnets_by_network :: "'w \<Rightarrow> string \<Rightarrow> string list"
  use_implicit_subnet_from_subnetpool ::
    "string \<Rightarrow> policy_target_group \<Rightarrow> 'w \<Rightarrow> string + string list \<times> policy_target_group \<times> 'w"
  add_subnets :: "string list \<Rightarrow> policy_target_group \<Rightarrow> 'w \<Rightarrow> policy_target_group \<times> 'w"
  sync_ptg_subnets :: "l2_policy \<Rightarrow> 'w \<Rightarrow> string + 'w"
  get_l3p_routers_for_l2policy :: "'w \<Rightarrow> string option \<Rightarrow> string + string list"
  attach_router_to_subnets :: "string \<Rightarrow> string list \<Rightarrow> 'w \<Rightarrow> string + 'w"
  process_subnets_for_ptg_delete ::
    "policy_target_group \<Rightarrow> string option \<Rightarrow> 'w \<Rightarrow> string + 'w"

text \<open>
  The context of an endpoint-group operation: \<^verbatim>\<open>context.current\<close>, the fabric store and
  the world of the collaborators.
\<close>

record 'w ptg_context =
  ctx_current :: policy_target_group
  ctx_aim :: aim_db
  ctx_world :: 'w

text \<open>\<^verbatim>\<open>_get_auto_ptg_id\<close> and \<^verbatim>\<open>_is_auto_ptg\<close>.\<close>

definition get_auto_ptg_id :: "driver \<Rightarrow> string option \<Rightarrow> error + string" where
  "get_auto_ptg_id D the_l2p_id =
     (case the_l2p_id of
        None \<Rightarrow> Inl TypeError
      | Some i \<Rightarrow> Inr (AUTO_PTG_PREFIX @ md5_hexdigest D i))"

definition is_auto_ptg :: "policy_target_group \<Rightarrow> bool" where
  "is_auto_ptg ptg = prefix AUTO_PTG_PREFIX (ptg_id ptg)"

text \<open>\<^verbatim>\<open>_get_epg_name_from_dn\<close>: the name of the fetched group; none fetched raises.\<close>

definition get_epg_name_from_dn :: "aim_db \<Rightarrow> string \<times> string \<times> string \<Rightarrow> error + string" where
  "get_epg_name_from_dn db epg_dn =
     (case find (\<lambda>g. epg_identity g = epg_dn) (endpoint_groups db) of
        None \<Rightarrow> Inl AttributeError
      | Some g \<Rightarrow> Inr (epg_name g))"

text \<open>
  \<^verbatim>\<open>apic_epg_name_for_policy_target_group\<close>. Subscripting the bridging-domain row when
  the query found none is a \<open>TypeError\<close>.
\<close>

definition apic_epg_name_for_policy_target_group ::
  "'w ptg_plugin \<Rightarrow> 'w \<Rightarrow> aim_db \<Rightarrow> string \<Rightarrow> error + string" where
  "apic_epg_name_for_policy_target_group P w db the_ptg_id =
     (case query_ptg_mapping P w the_ptg_id of
        None \<Rightarrow> Inr the_ptg_id
      | Some ptg_db \<Rightarrow>
          if is_auto_ptg ptg_db then
            (case query_l2p_mapping P w (l2_policy_id ptg_db) of
               None \<Rightarrow> Inl TypeError
             | Some l2p_db \<Rightarrow>
                 and_then (collab (get_network P w (network_id l2p_db)))
                   (\<lambda>net. get_epg_name_from_dn db (default_epg_dn net)))
          else Inr the_ptg_id)"

text \<open>
  \<^verbatim>\<open>_aim_endpoint_group\<close>: a new group resource. A keyword argument that is falsy is
  left out, and the resource class then gives the attribute its default, the empty
  name or the empty list.
\<close>

definition aim_endpoint_group ::
  "driver \<Rightarrow> 'w ptg_plugin \<Rightarrow> 'w \<Rightarrow> aim_db \<Rightarrow> policy_target_group \<Rightarrow>
   string \<Rightarrow> string \<Rightarrow> string list \<Rightarrow> string list \<Rightarrow> error + EndpointGroup" where
  "aim_endpoint_group D P w db ptg the_bd_name the_bd_tenant_name
       provided_contracts consumed_contracts =
     and_then (apic_epg_name_for_policy_target_group P w db (ptg_id ptg))
       (\<lambda>the_epg_name.
          Inr \<lparr>epg_tenant_name = aim_tenant_name D (ptg_tenant_id ptg),
               epg_app_profile_name = ap_name D,
               epg_name = the_epg_name,
               epg_display_name = aim_display_name D (ptg_name ptg),
               bd_name = the_bd_name,
               bd_tenant_name = the_bd_tenant_name,
               provided_contract_names = provided_contracts,
               consumed_contract_names = consumed_contracts,
               openstack_vmm_domain_names = [],
               physical_domain_names = []\<rparr>)"

text \<open>\<^verbatim>\<open>_get_aim_endpoint_group\<close>: the group as the store has it, or none.\<close>

definition get_aim_endpoint_group ::
  "driver \<Rightarrow> 'w ptg_plugin \<Rightarrow> 'w \<Rightarrow> aim_db \<Rightarrow> policy_target_group \<Rightarrow>
   error + EndpointGroup option" where
  "get_aim_endpoint_group D P w db ptg =
     and_then (aim_endpoint_group D P w db ptg [] [] [] [])
       (\<lambda>epg. Inr (aim_get epg_identity (endpoint_groups db) epg))"

definition get_aim_contract_names :: "driver \<Rightarrow> string list \<Rightarrow> string list" where
  "get_aim_contract_names D prs_id_list =
     map (\<lambda>the_prs_id. nm_policy_rule_set (name_mapper D) (Some the_prs_id) None None)
       prs_id_list"

text \<open>
  \<^verbatim>\<open>_add_contracts_for_epg\<close>. The group object is changed in place and then written
  with overwrite, so the changed object is returned with the store. Without a group
  the first attribute read raises; with neither list given the store is handed
  \<^verbatim>\<open>None\<close> and refuses it.
\<close>

definition add_contracts_for_epg ::
  "aim_db \<Rightarrow> EndpointGroup option \<Rightarrow> string list \<Rightarrow> string list \<Rightarrow>
   error + EndpointGroup \<times> aim_db" where
  "add_contracts_for_epg db aim_epg provided_contracts consumed_contracts =
     (case aim_epg of
        None \<Rightarrow>
          if provided_contracts \<noteq> [] \<or> consumed_contracts \<noteq> [] then Inl AttributeError
          else Inl (Collaborator ''UnknownResourceType'')
      | Some g \<Rightarrow>
          (let g1 = (if provided_contracts \<noteq> []
                     then g\<lparr>provided_contract_names :=
                              provided_contract_names g @ provided_contracts\<rparr>
                     else g);
               g2 = (if consumed_contracts \<noteq> []
                     then g1\<lparr>consumed_contract_names :=
                               consumed_contract_names g1 @ consumed_contracts\<rparr>
                     else g1)
           in and_then (aim_create epg_identity (endpoint_groups db) g2 True)
                (\<lambda>rows. Inr (g2, db\<lparr>endpoint_groups := rows\<rparr>))))"

text \<open>\<^verbatim>\<open>_add_implicit_svc_contracts_to_epg\<close>.\<close>

definition add_implicit_svc_contracts_to_epg ::
  "driver \<Rightarrow> aim_db \<Rightarrow> l2_policy \<Rightarrow> EndpointGroup \<Rightarrow> error + EndpointGroup \<times> aim_db" where
  "add_implicit_svc_contracts_to_epg D db l2p aim_epg =
     (let implicit_contract_name =
            nm_policy_rule_set (name_mapper D) (Some (l2p_tenant_id l2p))
              (Some (l2p_tenant_id l2p)) (Some (IMPLICIT_PREFIX (lib D)));
          service_contract_name =
            nm_policy_rule_set (name_mapper D) (Some (l2p_tenant_id l2p))
              (Some (l2p_tenant_id l2p)) (Some (SERVICE_PREFIX (lib D)))
      in add_contracts_for_epg db (Some aim_epg) []
           [implicit_contract_name, service_contract_name])"

text \<open>
  \<^verbatim>\<open>_use_implicit_subnet\<close>, one call run from start to end (taking and releasing the lock
  around it changes nothing in a run that is alone). \<^verbatim>\<open>subs\<close> is a set in the source;
  here it is the list of the identifiers without repetition.
\<close>

fun attach_routers ::
  "'w ptg_plugin \<Rightarrow> string list \<Rightarrow> string list \<Rightarrow> 'w \<Rightarrow> error + 'w" where
  "attach_routers P [] added w = Inr w"
| "attach_routers P (r # rest) added w =
     (case collab (attach_router_to_subnets P r added w) of
        Inl e \<Rightarrow> Inl e
      | Inr w' \<Rightarrow> attach_routers P rest added w')"

definition use_implicit_subnet ::
  "'w ptg_plugin \<Rightarrow> bool \<Rightarrow> 'w ptg_context \<Rightarrow> error + 'w ptg_context" where
  "use_implicit_subnet P force_add s =
     (let the_l2p_id = l2_policy_id (ctx_current s) in
      and_then (collab (get_l2_policy_row P (ctx_world s) the_l2p_id)) (\<lambda>l2p.
      let subs = remdups (get_subnets_by_network P (ctx_world s) (network_id l2p)) in
      and_then
        (if subs = [] \<or> force_add
         then collab (use_implicit_subnet_from_subnetpool P (APIC_OWNED @ l2p_name l2p)
                        (ctx_current s) (ctx_world s))
         else Inr ([], ctx_current s, ctx_world s))
        (\<lambda>(added, cur1, w1).
      let (cur2, w2) = add_subnets P (filter (\<lambda>x. x \<notin> set (subnets cur1)) subs) cur1 w1 in
      if added \<noteq> [] then
        and_then (collab (sync_ptg_subnets P l2p w2)) (\<lambda>w3.
        and_then (collab (get_l3p_routers_for_l2policy P w3 the_l2p_id)) (\<lambda>routers.
        and_then (attach_routers P routers added w3) (\<lambda>w4.
          Inr (s\<lparr>ctx_current := cur2, ctx_world := w4\<rparr>))))
      else Inr (s\<lparr>ctx_current := cur2, ctx_world := w2\<rparr>))))"

text \<open>\<^verbatim>\<open>create_policy_target_group_precommit\<close>.\<close>

definition create_policy_target_group_precommit ::
  "driver \<Rightarrow> 'w ptg_plugin \<Rightarrow> 'w ptg_context \<Rightarrow> error + 'w ptg_context" where
  "create_policy_target_group_precommit D P s =
     (if is_auto_ptg (ctx_current s) then use_implicit_subnet P False s
      else if subnets (ctx_current s) \<noteq> [] then Inl ExplicitSubnetAssociationNotSupported
      else
        and_then
          (if \<not> truthy (l2_policy_id (ctx_current s)) then
             and_then (collab (create_implicit_l2_policy P (ctx_current s) (ctx_world s)))
               (\<lambda>(cur1, w1).
             and_then (collab (get_policy_target_group_row P w1 (ptg_id cur1)))
               (\<lambda>ptg_db.
                Inr (s\<lparr>ctx_current := cur1,
                       ctx_world := set_row_l2_policy_id P (ptg_id ptg_db)
                                      (l2_policy_id cur1) w1\<rparr>)))
           else Inr s)
          (\<lambda>s1.
        and_then (collab (get_l2_policy_row P (ctx_world s1) (l2_policy_id (ctx_current s1))))
          (\<lambda>l2p_db.
        and_then (collab (get_network P (ctx_world s1) (network_id l2p_db)))
          (\<lambda>net.
        and_then (use_implicit_subnet P False s1)
          (\<lambda>s2.
        let the_bd_name = nm_network (name_mapper D) (net_id net) (net_name net);
            the_bd_tenant_name = aim_tenant_name D (ptg_tenant_id (ctx_current s2));
            provided_contracts =
              get_aim_contract_names D (provided_policy_rule_sets (ctx_current s2));
            consumed_contracts =
              get_aim_contract_names D (consumed_policy_rule_sets (ctx_current s2))
        in
        and_then (aim_endpoint_group D P (ctx_world s2) (ctx_aim s2) (ctx_current s2)
                    the_bd_name the_bd_tenant_name provided_contracts consumed_contracts)
          (\<lambda>aim_epg.
        let (vmms, phys) = get_aim_domains P (ctx_world s2);
            aim_epg1 = aim_epg\<lparr>openstack_vmm_domain_names := vmms,
                               physical_domain_names := phys\<rparr>
        in
        and_then (add_implicit_svc_contracts_to_epg D (ctx_aim s2) l2p_db aim_epg1)
          (\<lambda>(g, db'). Inr (s2\<lparr>ctx_aim := db'\<rparr>))))))))"

text \<open>
  The list \<^verbatim>\<open>list((set(existing) - set(old)) | set(new))\<close>. Python gives the elements
  of the set in an order of its own; the model keeps the order of first occurrence, and
  the statements about this list speak of its elements only.
\<close>

definition names_after_update :: "string list \<Rightarrow> string list \<Rightarrow> string list \<Rightarrow> string list" where
  "names_after_update existing old new =
     remdups (filter (\<lambda>n. n \<notin> set old) existing @ new)"

text \<open>\<^verbatim>\<open>update_policy_target_group_precommit\<close>, with \<^verbatim>\<open>context.original\<close>.\<close>

definition update_policy_target_group_precommit ::
  "driver \<Rightarrow> 'w ptg_plugin \<Rightarrow> policy_target_group \<Rightarrow> 'w ptg_context \<Rightarrow> error + 'w ptg_context" where
  "update_policy_target_group_precommit D P original s =
     (if shared original \<noteq> shared (ctx_current s)
      then Inl (SharedAttributeUpdateNotSupported ''policy_target_group'')
      else
        let old_provided_contracts =
              get_aim_contract_names D (provided_policy_rule_sets original);
            old_consumed_contracts =
              get_aim_contract_names D (consumed_policy_rule_sets original);
            new_provided_contracts =
              get_aim_contract_names D (provided_policy_rule_sets (ctx_current s));
            new_consumed_contracts =
              get_aim_contract_names D (consumed_policy_rule_sets (ctx_current s))
        in
        and_then (get_aim_endpoint_group D P (ctx_world s) (ctx_aim s) (ctx_current s))
          (\<lambda>fetched.
             case fetched of
               None \<Rightarrow> Inr s
             | Some aim_epg \<Rightarrow>
                 (let g1 = (if \<not> is_auto_ptg (ctx_current s)
                            then aim_epg\<lparr>epg_display_name :=
                                           aim_display_name D (ptg_name (ctx_current s))\<rparr>
                            else aim_epg);
                      g2 = g1\<lparr>provided_contract_names :=
                                 names_after_update (provided_contract_names g1)
                                   old_provided_contracts new_provided_contracts\<rparr>;
                      g3 = g2\<lparr>consumed_contract_names :=
                                 names_after_update (consumed_contract_names g2)
                                   old_consumed_contracts new_consumed_contracts\<rparr>
                  in and_then (add_contracts_for_epg (ctx_aim s) (Some g3) [] [])
                       (\<lambda>(g, db'). Inr (s\<lparr>ctx_aim := db'\<rparr>)))))"

text \<open>\<^verbatim>\<open>delete_policy_target_group_precommit\<close>.\<close>

definition delete_policy_target_group_precommit ::
  "driver \<Rightarrow> 'w ptg_plugin \<Rightarrow> 'w ptg_context \<Rightarrow> error + 'w ptg_context" where
  "delete_policy_target_group_precommit D P s =
     and_then (get_auto_ptg_id D (l2_policy_id (ctx_current s))) (\<lambda>auto_ptg_id.
     if ptg_id (ctx_current s) = auto_ptg_id
     then Inl (AutoPTGDeleteNotSupported (ptg_id (ctx_current s)))
     else
       and_then (collab (get_policy_target_group_row P (ctx_world s) (ptg_id (ctx_current s))))
         (\<lambda>ptg_db.
       and_then (aim_endpoint_group D P (ctx_world s) (ctx_aim s) (ctx_current s) [] [] [] [])
         (\<lambda>epg.
       let db1 = (ctx_aim s)\<lparr>endpoint_groups :=
                    aim_delete epg_identity (endpoint_groups (ctx_aim s)) epg\<rparr>
       in
       and_then (collab (process_subnets_for_ptg_delete P ptg_db
                           (l2_policy_id (ctx_current s)) (ctx_world s)))
         (\<lambda>w1.
       if truthy (l2_policy_id ptg_db) then
         (let w2 = set_row_l2_policy_id P (ptg_id ptg_db) None w1 in
          and_then (collab (get_l2_policy_row P w2 (l2_policy_id ptg_db))) (\<lambda>l2p_db.
          if policy_target_groups l2p_db = [] \<or>
             (length (policy_target_groups l2p_db) = 1 \<and>
              is_auto_ptg (hd (policy_target_groups l2p_db)))
          then and_then (collab (cleanup_l2_policy P (the (l2_policy_id ptg_db)) w2))
                 (\<lambda>w3. Inr (s\<lparr>ctx_aim := db1, ctx_world := w3\<rparr>))
          else Inr (s\<lparr>ctx_aim := db1, ctx_world := w2\<rparr>)))
       else Inr (s\<lparr>ctx_aim := db1, ctx_world := w1\<rparr>)))))"

section \<open>The tenant's shared implicit contracts\<close>

text \<open>
  The dictionary \<^verbatim>\<open>contracts\<close> of \<^verbatim>\<open>_process_contracts_for_default_epg\<close>, as the list
  of its items: the infrastructure-services entries under the service prefix and the
  ARP entry under the implicit prefix (one item only, should the two prefixes coincide).
\<close>

definition default_epg_contracts :: "driver \<Rightarrow> (string \<times> (string \<times> attrs) list) list" where
  "default_epg_contracts D =
     (if SERVICE_PREFIX (lib D) = IMPLICIT_PREFIX (lib D)
      then [(IMPLICIT_PREFIX (lib D), get_arp_filter_entry (lib D))]
      else [(SERVICE_PREFIX (lib D), get_service_contract_filter_entries (lib D)),
            (IMPLICIT_PREFIX (lib D), get_arp_filter_entry (lib D))])"

text \<open>The contract and the filters of the procedure, by prefix and entry key.\<close>

definition implicit_contract :: "driver \<Rightarrow> string \<Rightarrow> string \<Rightarrow> Contract" where
  "implicit_contract D tenant_id contract_name_prefix =
     as_Contract (aim_resource_by_name D tenant_id (Some tenant_id) (PER_PROJECT (lib D))
                    (Some contract_name_prefix))"

definition implicit_filter :: "driver \<Rightarrow> string \<Rightarrow> string \<Rightarrow> string \<Rightarrow> Filter" where
  "implicit_filter D tenant_id contract_name_prefix k =
     as_Filter (aim_resource_by_name D tenant_id (Some tenant_id) (PER_PROJECT (lib D))
                  (Some (contract_name_prefix @ k @ ''-'')))"

text \<open>What the \<^verbatim>\<open>get\<close> mode returns: the fetched resources, each possibly none.\<close>

record fetched_resources =
  fr_contracts :: "Contract option list"
  fr_contract_subjects :: "ContractSubject option list"
  fr_filters :: "Filter option list"
  fr_filter_entries :: "FilterEntry option list"

text \<open>
  The inner loop over the entries when \<^verbatim>\<open>get\<close> is not set; \<^verbatim>\<open>filter_names\<close> is carried
  along with the store.
\<close>

definition process_entry ::
  "driver \<Rightarrow> string \<Rightarrow> string \<Rightarrow> bool \<Rightarrow> bool \<Rightarrow> string \<times> attrs \<Rightarrow>
   string list \<times> aim_db \<Rightarrow> error + string list \<times> aim_db" where
  "process_entry D tenant_id contract_name_prefix create delete entry st =
     (case entry of (k, v) \<Rightarrow> case st of (filter_names, db) \<Rightarrow>
      let flt = implicit_filter D tenant_id contract_name_prefix k in
      and_then
        (if create then
           and_then (aim_create filter_identity (filters db) flt True) (\<lambda>rows.
           and_then (create_aim_filter_entry D (db\<lparr>filters := rows\<rparr>) flt k v True) (\<lambda>db1.
             Inr (filter_names @ [f_name flt], db1)))
         else Inr (filter_names, db))
        (\<lambda>(filter_names1, db1).
           if delete then
             (let db2 = delete_aim_filter_entries db1 flt
              in Inr (filter_names1,
                      db2\<lparr>filters := aim_delete filter_identity (filters db2) flt\<rparr>))
           else Inr (filter_names1, db1)))"

fun process_entries ::
  "driver \<Rightarrow> string \<Rightarrow> string \<Rightarrow> bool \<Rightarrow> bool \<Rightarrow> (string \<times> attrs) list \<Rightarrow>
   string list \<times> aim_db \<Rightarrow> error + string list \<times> aim_db" where
  "process_entries D tenant_id pfx create delete [] st = Inr st"
| "process_entries D tenant_id pfx create delete (entry # rest) st =
     (case process_entry D tenant_id pfx create delete entry st of
        Inl e \<Rightarrow> Inl e
      | Inr st' \<Rightarrow> process_entries D tenant_id pfx create delete rest st')"

text \<open>The same loop in \<^verbatim>\<open>get\<close> mode: the filter and the entry fetched for every key.\<close>

definition fetch_entries ::
  "driver \<Rightarrow> string \<Rightarrow> string \<Rightarrow> (string \<times> attrs) list \<Rightarrow> aim_db \<Rightarrow>
   Filter option list \<times> FilterEntry option list" where
  "fetch_entries D tenant_id contract_name_prefix entries db =
     (map (\<lambda>(k, v). aim_get filter_identity (filters db)
                       (implicit_filter D tenant_id contract_name_prefix k)) entries,
      map (\<lambda>(k, v). aim_get filter_entry_identity (filter_entries db)
                       (aim_filter_entry D (implicit_filter D tenant_id contract_name_prefix k) k
                          (map_to_aim_filter_entry (lib D) v))) entries)"

text \<open>
  One turn of the loop over \<^verbatim>\<open>contracts\<close>. The group object fetched before the loop is
  changed in place by \<^verbatim>\<open>_add_contracts_for_epg\<close> and so is carried from turn to turn.
  The result is the dictionary to return, when the turn ends in \<^verbatim>\<open>return\<close>, with the
  group object and the store.
\<close>

definition process_contract ::
  "driver \<Rightarrow> l2_policy \<Rightarrow> bool \<Rightarrow> bool \<Rightarrow> bool \<Rightarrow> string \<times> (string \<times> attrs) list \<Rightarrow>
   EndpointGroup option \<times> aim_db \<Rightarrow>
   error + fetched_resources option \<times> EndpointGroup option \<times> aim_db" where
  "process_contract D l2p create delete get item st =
     (case item of (contract_name_prefix, entries) \<Rightarrow> case st of (aim_epg, db) \<Rightarrow>
      let contract_name =
            nm_policy_rule_set (name_mapper D) (Some (l2p_tenant_id l2p))
              (Some (l2p_tenant_id l2p)) (Some contract_name_prefix);
          ct = implicit_contract D (l2p_tenant_id l2p) contract_name_prefix
      in
      if get then
        (let (fetched_filters, fetched_entries) =
               fetch_entries D (l2p_tenant_id l2p) contract_name_prefix entries db
         in Inr (Some \<lparr>fr_contracts = [aim_get contract_identity (contracts db) ct],
                       fr_contract_subjects =
                         [aim_get contract_subject_identity (contract_subjects db)
                            (aim_contract_subject D ct [] [] [])],
                       fr_filters = fetched_filters,
                       fr_filter_entries = fetched_entries\<rparr>,
                 aim_epg, db))
      else
        and_then
          (if create then
             and_then (aim_create contract_identity (contracts db) ct True)
               (\<lambda>rows. Inr (db\<lparr>contracts := rows\<rparr>))
           else Inr db)
          (\<lambda>db1.
        and_then
          (if \<not> delete then
             and_then
               (if contract_name_prefix = IMPLICIT_PREFIX (lib D)
                then add_contracts_for_epg db1 aim_epg [contract_name] [contract_name]
                else add_contracts_for_epg db1 aim_epg [contract_name] [])
               (\<lambda>(g, db2). Inr (Some g, db2))
           else Inr (aim_epg, db1))
          (\<lambda>(aim_epg2, db2).
        and_then (process_entries D (l2p_tenant_id l2p) contract_name_prefix create delete
                    entries ([], db2))
          (\<lambda>(filter_names, db3).
        and_then
          (if create
           then populate_aim_contract_subject_by_filters D db3 ct [] [] filter_names
           else Inr db3)
          (\<lambda>db4.
        if delete then
          (let db5 = delete_aim_contract_subject D db4 ct
           in Inr (None, aim_epg2,
                   db5\<lparr>contracts := aim_delete contract_identity (contracts db5) ct\<rparr>))
        else Inr (None, aim_epg2, db4))))))"

fun process_contracts ::
  "driver \<Rightarrow> l2_policy \<Rightarrow> bool \<Rightarrow> bool \<Rightarrow> bool \<Rightarrow> (string \<times> (string \<times> attrs) list) list \<Rightarrow>
   EndpointGroup option \<times> aim_db \<Rightarrow> error + fetched_resources option \<times> aim_db" where
  "process_contracts D l2p create delete get [] st = Inr (None, snd st)"
| "process_contracts D l2p create delete get (item # rest) st =
     (case process_contract D l2p create delete get item st of
        Inl e \<Rightarrow> Inl e
      | Inr (Some aim_resources, aim_epg, db) \<Rightarrow> Inr (Some aim_resources, db)
      | Inr (None, aim_epg, db) \<Rightarrow>
          process_contracts D l2p create delete get rest (aim_epg, db))"

text \<open>
  \<^verbatim>\<open>_process_contracts_for_default_epg\<close>. Asking for create and delete at once ends in
  a \<^verbatim>\<open>raise\<close> with no exception to raise.
\<close>

definition process_contracts_for_default_epg ::
  "driver \<Rightarrow> l2_policy \<Rightarrow> string \<times> string \<times> string \<Rightarrow> bool \<Rightarrow> bool \<Rightarrow> bool \<Rightarrow> aim_db \<Rightarrow>
   error + fetched_resources option \<times> aim_db" where
  "process_contracts_for_default_epg D l2p epg_dn create delete get db =
     (if create \<and> delete then Inl TypeError
      else
        let aim_epg = find (\<lambda>g. epg_identity g = epg_dn) (endpoint_groups db)
        in process_contracts D l2p create delete get (default_epg_contracts D) (aim_epg, db))"

definition create_implicit_contracts_and_configure_default_epg ::
  "driver \<Rightarrow> l2_policy \<Rightarrow> string \<times> string \<times> string \<Rightarrow> aim_db \<Rightarrow> error + aim_db" where
  "create_implicit_contracts_and_configure_default_epg D l2p epg_dn db =
     and_then (process_contracts_for_default_epg D l2p epg_dn True False False db)
       (\<lambda>(ret, db'). Inr db')"

definition configure_contracts_for_default_epg ::
  "driver \<Rightarrow> l2_policy \<Rightarrow> string \<times> string \<times> string \<Rightarrow> aim_db \<Rightarrow> error + aim_db" where
  "configure_contracts_for_default_epg D l2p epg_dn db =
     and_then (process_contracts_for_default_epg D l2p epg_dn False False False db)
       (\<lambda>(ret, db'). Inr db')"

definition delete_implicit_contracts_and_unconfigure_default_epg ::
  "driver \<Rightarrow> l2_policy \<Rightarrow> string \<times> string \<times> string \<Rightarrow> aim_db \<Rightarrow> error + aim_db" where
  "delete_implicit_contracts_and_unconfigure_default_epg D l2p epg_dn db =
     and_then (process_contracts_for_default_epg D l2p epg_dn False True False db)
       (\<lambda>(ret, db'). Inr db')"

definition get_implicit_contracts_for_default_epg ::
  "driver \<Rightarrow> l2_policy \<Rightarrow> string \<times> string \<times> string \<Rightarrow> aim_db \<Rightarrow>
   error + fetched_resources option" where
  "get_implicit_contracts_for_default_epg D l2p epg_dn db =
     and_then (process_contracts_for_default_epg D l2p epg_dn True False True db)
       (\<lambda>(ret, db'). Inr ret)"


section \<open>Bridging domains\<close>

text \<open>
  The attributes of the automatic group that \<^verbatim>\<open>create_l2_policy_precommit\<close> hands to
  \<^verbatim>\<open>_create_policy_target_group\<close>; the proxy and service attributes of the dictionary
  are constants and left out.
\<close>

record auto_ptg_data =
  apd_id :: string
  apd_name :: string
  apd_description :: string
  apd_l2_policy_id :: string
  apd_shared :: bool

text \<open>
  What the bridging-domain operations ask of their collaborators beyond the ones of the
  endpoint groups: the same operation of the base class, the number of bridging domains
  the plugin counts, the creation of a group through the plugin and the deletion of a
  group's row.
\<close>

record 'w l2p_plugin =
  super_create_l2_policy_precommit :: "l2_policy \<Rightarrow> 'w \<Rightarrow> string + l2_policy \<times> 'w"
  super_delete_l2_policy_precommit :: "l2_policy \<Rightarrow> 'w \<Rightarrow> string + 'w"
  get_l2_policies_count :: "'w \<Rightarrow> nat"
  create_policy_target_group :: "auto_ptg_data \<Rightarrow> 'w \<Rightarrow> string + 'w"
  db_delete_policy_target_group :: "string \<Rightarrow> 'w \<Rightarrow> string + 'w"

record 'w l2p_context =
  lctx_current :: l2_policy
  lctx_aim :: aim_db
  lctx_world :: 'w

definition get_auto_ptg_name :: "l2_policy \<Rightarrow> string" where
  "get_auto_ptg_name l2p = AUTO_PTG_NAME_PREFIX @ l2p_id l2p"

text \<open>\<^verbatim>\<open>create_l2_policy_precommit\<close>.\<close>

definition create_l2_policy_precommit ::
  "driver \<Rightarrow> 'w ptg_plugin \<Rightarrow> 'w l2p_plugin \<Rightarrow> 'w l2p_context \<Rightarrow> error + 'w l2p_context" where
  "create_l2_policy_precommit D P L s =
     and_then (collab (super_create_l2_policy_precommit L (lctx_current s) (lctx_world s)))
       (\<lambda>(l2p, w1).
     and_then (collab (get_network P w1 (network_id l2p)))
       (\<lambda>net.
     let the_default_epg_dn = default_epg_dn net;
         l2p_count = get_l2_policies_count L w1
     in
     and_then
       (if l2p_count = 1
        then create_implicit_contracts_and_configure_default_epg D l2p the_default_epg_dn
               (lctx_aim s)
        else configure_contracts_for_default_epg D l2p the_default_epg_dn (lctx_aim s))
       (\<lambda>db1.
     if create_auto_ptg D then
       and_then (get_auto_ptg_id D (Some (l2p_id l2p))) (\<lambda>auto_id.
       and_then
         (collab (create_policy_target_group L
            \<lparr>apd_id = auto_id,
             apd_name = get_auto_ptg_name l2p,
             apd_description = ''System created auto PTG for L2P: '' @ l2p_id l2p,
             apd_l2_policy_id = l2p_id l2p,
             apd_shared = l2p_shared l2p\<rparr> w1))
         (\<lambda>w2. Inr \<lparr>lctx_current = l2p, lctx_aim = db1, lctx_world = w2\<rparr>))
     else Inr \<lparr>lctx_current = l2p, lctx_aim = db1, lctx_world = w1\<rparr>)))"

text \<open>
  The \<^verbatim>\<open>try\<close> block of \<^verbatim>\<open>delete_l2_policy_precommit\<close>: the automatic group is looked up,
  its subnets are cleaned up, its row is unlinked and deleted. The exception
  \<^verbatim>\<open>PolicyTargetGroupNotFound\<close> out of any of these calls leaves the block, so that
  the calls after it are not made, and is caught and logged.
\<close>

definition caught :: "string + 'w \<Rightarrow> 'w \<Rightarrow> error + 'w" where
  "caught r w =
     (case r of
        Inr w' \<Rightarrow> Inr w'
      | Inl exn \<Rightarrow>
          if exn = ''PolicyTargetGroupNotFound'' then Inr w else Inl (Collaborator exn))"

definition remove_auto_ptg ::
  "'w ptg_plugin \<Rightarrow> 'w l2p_plugin \<Rightarrow> string \<Rightarrow> string \<Rightarrow> 'w \<Rightarrow> error + 'w" where
  "remove_auto_ptg P L auto_ptg_id the_l2p_id w =
     (case get_policy_target_group_row P w auto_ptg_id of
        Inl exn \<Rightarrow> caught (Inl exn) w
      | Inr auto_ptg \<Rightarrow>
          (case process_subnets_for_ptg_delete P auto_ptg (Some the_l2p_id) w of
             Inl exn \<Rightarrow> caught (Inl exn) w
           | Inr w1 \<Rightarrow>
               let w2 = (if truthy (l2_policy_id auto_ptg)
                         then set_row_l2_policy_id P (ptg_id auto_ptg) None w1 else w1)
               in caught (db_delete_policy_target_group L (ptg_id auto_ptg) w2) w2))"

text \<open>\<^verbatim>\<open>delete_l2_policy_precommit\<close>.\<close>

definition delete_l2_policy_precommit ::
  "driver \<Rightarrow> 'w ptg_plugin \<Rightarrow> 'w l2p_plugin \<Rightarrow> 'w l2p_context \<Rightarrow> error + 'w l2p_context" where
  "delete_l2_policy_precommit D P L s =
     (let the_l2p_id = l2p_id (lctx_current s) in
      and_then (collab (get_l2_policy_row P (lctx_world s) (Some the_l2p_id))) (\<lambda>l2p_db.
      and_then (collab (get_network P (lctx_world s) (network_id l2p_db))) (\<lambda>net.
      let the_default_epg_dn = default_epg_dn net in
      and_then (get_auto_ptg_id D (Some the_l2p_id)) (\<lambda>auto_ptg_id.
      and_then (remove_auto_ptg P L auto_ptg_id the_l2p_id (lctx_world s)) (\<lambda>w1.
      let l2p_count = get_l2_policies_count L w1 in
      and_then
        (if l2p_count = 1
         then delete_implicit_contracts_and_unconfigure_default_epg D (lctx_current s)
                the_default_epg_dn (lctx_aim s)
         else Inr (lctx_aim s))
        (\<lambda>db1.
      and_then (collab (super_delete_l2_policy_precommit L (lctx_current s) w1)) (\<lambda>w2.
        Inr (s\<lparr>lctx_aim := db1, lctx_world := w2\<rparr>))))))))"

section \<open>Routing domains\<close>

text \<open>
  \<^verbatim>\<open>context.current\<close> of a routing-domain operation; \<^verbatim>\<open>external_segments\<close> is the
  dictionary from a segment to the addresses allocated on it, as the list of its items.
\<close>

record l3_policy =
  l3p_id :: string
  l3p_name :: string
  l3p_tenant_id :: string
  address_scope_v4_id :: "string option"
  address_scope_v6_id :: "string option"
  subnetpools_v4 :: "string list"
  subnetpools_v6 :: "string list"
  routers :: "string list"
  external_segments :: "(string \<times> string list) list"
  ip_version :: int

text \<open>The attributes of the routing domain's row (\<^verbatim>\<open>l3p_db\<close>) that the creation writes.\<close>

record l3_policy_row =
  row_ip_version :: int
  row_ip_pool :: "string option"
  row_subnet_prefix_length :: "int option"
  row_address_scope_v4_id :: "string option"
  row_address_scope_v6_id :: "string option"

record subnetpool =
  sp_id :: string
  sp_address_scope_id :: "string option"
  sp_prefixes :: "string list"
  sp_default_prefixlen :: int

record external_segment =
  es_id :: string
  es_subnet_id :: string
  es_l3_policies :: "string list"

text \<open>An external network with its extension attribute \<^verbatim>\<open>NAT_TYPE\<close>, if it has one.\<close>

record ext_network =
  en_id :: string
  nat_type :: "string option"

text \<open>The variable \<^verbatim>\<open>ascp\<close>: one of the two address-scope keys.\<close>

datatype ascp_key = address_scope_v4_id_key | address_scope_v6_id_key

definition current_ascp :: "ascp_key \<Rightarrow> l3_policy \<Rightarrow> string option" where
  "current_ascp k l3p =
     (case k of address_scope_v4_id_key \<Rightarrow> address_scope_v4_id l3p
              | address_scope_v6_id_key \<Rightarrow> address_scope_v6_id l3p)"

definition row_ascp :: "ascp_key \<Rightarrow> l3_policy_row \<Rightarrow> string option" where
  "row_ascp k row =
     (case k of address_scope_v4_id_key \<Rightarrow> row_address_scope_v4_id row
              | address_scope_v6_id_key \<Rightarrow> row_address_scope_v6_id row)"

definition set_row_ascp :: "ascp_key \<Rightarrow> string option \<Rightarrow> l3_policy_row \<Rightarrow> l3_policy_row" where
  "set_row_ascp k v row =
     (case k of address_scope_v4_id_key \<Rightarrow> row\<lparr>row_address_scope_v4_id := v\<rparr>
              | address_scope_v6_id_key \<Rightarrow> row\<lparr>row_address_scope_v6_id := v\<rparr>)"

text \<open>
  What the creation of a routing domain asks of its collaborators, over a world \<open>'w\<close>
  that holds the plugin's tables, the network-resource service and the fabric:
  the external segments with given identifiers; the network of a subnet (none when
  there is no subnet) and an external network by identifier; a subnet pool by
  identifier; and the steps of the implicit resource manager, which work on
  \<^verbatim>\<open>context.current\<close> and on the world: the implicit address scope, the implicit subnet
  pool (for an address scope and an IP version), the check of router access, the
  implicit router, and the plugging of the routers to the external segments
  (\<^verbatim>\<open>_plug_l3p_routers_to_ext_segment\<close>, a sequence of calls to the network-resource
  service). A step that raises is taken to leave the world as it found it.
\<close>

record 'w l3p_plugin =
  get_external_segments :: "'w \<Rightarrow> string list \<Rightarrow> external_segment list"
  get_subnet_network_id :: "'w \<Rightarrow> string \<Rightarrow> string + string option"
  get_ext_network :: "'w \<Rightarrow> string \<Rightarrow> string + ext_network option"
  get_subnetpool :: "'w \<Rightarrow> string \<Rightarrow> string + subnetpool"
  use_implicit_address_scope :: "l3_policy \<Rightarrow> 'w \<Rightarrow> string + l3_policy \<times> 'w"
  use_implicit_subnetpool ::
    "string option \<Rightarrow> int \<Rightarrow> l3_policy \<Rightarrow> 'w \<Rightarrow> string + l3_policy \<times> 'w"
  reject_invalid_router_access :: "l3_policy \<Rightarrow> 'w \<Rightarrow> string option"
  use_implicit_router :: "l3_policy \<Rightarrow> 'w \<Rightarrow> string + l3_policy \<times> 'w"
  plug_l3p_routers_to_ext_segment :: "l3_policy \<Rightarrow> 'w \<Rightarrow> string + l3_policy \<times> 'w"

text \<open>
  The state of the operation: \<^verbatim>\<open>context.current\<close>, the row and the world. An operation
  gives the exception it raised, if any, and the state at its end; on an exception that
  is all that had been written when it was raised.
\<close>

record 'w l3p_context =
  l3_current :: l3_policy
  l3_row :: l3_policy_row
  l3_world :: 'w

text \<open>\<^verbatim>\<open>_ext_segment_2_ext_network\<close>.\<close>

definition ext_segment_2_ext_network ::
  "'w l3p_plugin \<Rightarrow> 'w \<Rightarrow> external_segment \<Rightarrow> error + ext_network option" where
  "ext_segment_2_ext_network P w es =
     and_then (collab (get_subnet_network_id P w (es_subnet_id es)))
       (\<lambda>subnet. case subnet of
                    None \<Rightarrow> Inr None
                  | Some the_network_id \<Rightarrow> collab (get_ext_network P w the_network_id))"

text \<open>
  \<^verbatim>\<open>_check_l3policy_ext_segment\<close>: the second loop, over the fetched segments, and the
  whole check. The result is the exception raised, if any.
\<close>

fun check_ext_segments ::
  "'w l3p_plugin \<Rightarrow> 'w \<Rightarrow> string \<Rightarrow> external_segment list \<Rightarrow> error option" where
  "check_ext_segments P w the_l3p_id [] = None"
| "check_ext_segments P w the_l3p_id (es # rest) =
     (case ext_segment_2_ext_network P w es of
        Inl e \<Rightarrow> Some e
      | Inr ext_net \<Rightarrow>
          if (case ext_net of
                None \<Rightarrow> False
              | Some n \<Rightarrow> py_in (nat_type n) [''distributed'', ''edge''])
          then check_ext_segments P w the_l3p_id rest
          else if filter (\<lambda>x. x \<noteq> the_l3p_id) (es_l3_policies es) \<noteq> []
          then Some OnlyOneL3PolicyIsAllowedPerExternalSegment
          else check_ext_segments P w the_l3p_id rest)"

definition check_l3policy_ext_segment ::
  "'w l3p_plugin \<Rightarrow> 'w \<Rightarrow> l3_policy \<Rightarrow> error option" where
  "check_l3policy_ext_segment P w l3policy =
     (if external_segments l3policy \<noteq> [] then
        (if list_ex (\<lambda>item. length (snd item) > 1) (external_segments l3policy)
         then Some OnlyOneAddressIsAllowedPerExternalSegment
         else check_ext_segments P w (l3p_id l3policy)
                (get_external_segments P w (map fst (external_segments l3policy))))
      else None)"

text \<open>
  \<^verbatim>\<open>create_l3_policy_precommit\<close>, in the order of the source. First the checks that
  write nothing: the external segments, both address scopes, subnet pools of both
  families, an address scope of one family with subnet pools of the other.
\<close>

definition l3_validate :: "'w l3p_plugin \<Rightarrow> 'w l3p_context \<Rightarrow> error option" where
  "l3_validate P s =
     (let l3p = l3_current s in
      case check_l3policy_ext_segment P (l3_world s) l3p of
        Some e \<Rightarrow> Some e
      | None \<Rightarrow>
          if truthy (address_scope_v4_id l3p) \<and> truthy (address_scope_v6_id l3p)
          then Some SimultaneousV4V6AddressScopesNotSupportedOnAimDriver
          else if subnetpools_v4 l3p \<noteq> [] \<and> subnetpools_v6 l3p \<noteq> []
          then Some SimultaneousV4V6SubnetpoolsNotSupportedOnAimDriver
          else if (address_scope_v4_id l3p \<noteq> None \<and> subnetpools_v6 l3p \<noteq> []) \<or>
                  (address_scope_v6_id l3p \<noteq> None \<and> subnetpools_v4 l3p \<noteq> [])
          then Some InconsistentAddressScopeSubnetpool
          else None)"

text \<open>The address family taken from what is given, with the key \<^verbatim>\<open>ascp\<close> it sets.\<close>

definition l3_family :: "'w l3p_context \<Rightarrow> ascp_key option \<times> 'w l3p_context" where
  "l3_family s =
     (let l3p = l3_current s in
      if truthy (address_scope_v6_id l3p) \<or> subnetpools_v6 l3p \<noteq> []
      then (Some address_scope_v6_id_key,
            s\<lparr>l3_row := (l3_row s)\<lparr>row_ip_version := 6\<rparr>,
              l3_current := l3p\<lparr>ip_version := 6\<rparr>\<rparr>)
      else if truthy (address_scope_v4_id l3p) \<or> subnetpools_v4 l3p \<noteq> []
      then (Some address_scope_v4_id_key, s\<lparr>l3_row := (l3_row s)\<lparr>row_ip_version := 4\<rparr>\<rparr>)
      else (None, s))"

text \<open>Without an explicit address scope, the key of the row's family and an implicit scope.\<close>

definition l3_address_scope ::
  "'w l3p_plugin \<Rightarrow> ascp_key option \<Rightarrow> 'w l3p_context \<Rightarrow>
   error option \<times> ascp_key \<times> 'w l3p_context" where
  "l3_address_scope P ascp0 s =
     (case ascp0 of
        Some k \<Rightarrow> (None, k, s)
      | None \<Rightarrow>
          (let k = (if row_ip_version (l3_row s) = 4 then address_scope_v4_id_key
                    else address_scope_v6_id_key)
           in if \<not> truthy (current_ascp k (l3_current s)) then
                (case use_implicit_address_scope P (l3_current s) (l3_world s) of
                   Inl exn \<Rightarrow> (Some (Collaborator exn), k, s)
                 | Inr (cur, w) \<Rightarrow>
                     (None, k,
                      s\<lparr>l3_current := cur, l3_world := w,
                        l3_row := set_row_ascp k (current_ascp k cur) (l3_row s)\<rparr>))
              else (None, k, s)))"

text \<open>
  The loop over more than one subnet pool; \<^verbatim>\<open>sp_ascp\<close> is the address scope of the
  first pool once it is seen, and the row is carried since the loop may write it.
\<close>

fun check_pools ::
  "'w l3p_plugin \<Rightarrow> 'w \<Rightarrow> ascp_key \<Rightarrow> string list \<Rightarrow> string option \<Rightarrow> l3_policy_row \<Rightarrow>
   error option \<times> l3_policy_row" where
  "check_pools P w ascp [] sp_ascp row = (None, row)"
| "check_pools P w ascp (the_sp_id # rest) sp_ascp row =
     (case get_subnetpool P w the_sp_id of
        Inl exn \<Rightarrow> (Some (Collaborator exn), row)
      | Inr sp \<Rightarrow>
          if \<not> truthy (sp_address_scope_id sp) then (Some NoAddressScopeForSubnetpool, row)
          else if \<not> truthy sp_ascp then
            (if truthy (row_ascp ascp row) then
               (if sp_address_scope_id sp \<noteq> row_ascp ascp row
                then (Some InconsistentAddressScopeSubnetpool, row)
                else check_pools P w ascp rest (sp_address_scope_id sp) row)
             else check_pools P w ascp rest (sp_address_scope_id sp)
                    (set_row_ascp ascp (sp_address_scope_id sp) row))
          else if sp_ascp \<noteq> sp_address_scope_id sp
          then (Some InconsistentAddressScopeSubnetpool, row)
          else check_pools P w ascp rest sp_ascp row)"

text \<open>The subnet pools of the row's family: none, exactly one, or more than one.\<close>

definition l3_subnetpools ::
  "'w l3p_plugin \<Rightarrow> ascp_key \<Rightarrow> 'w l3p_context \<Rightarrow> error option \<times> 'w l3p_context" where
  "l3_subnetpools P ascp s =
     (let l3p = l3_current s;
          pools = (if row_ip_version (l3_row s) = 4 then subnetpools_v4 l3p
                   else subnetpools_v6 l3p)
      in
      if pools = [] then
        (case use_implicit_subnetpool P (row_ascp ascp (l3_row s)) (row_ip_version (l3_row s))
                l3p (l3_world s) of
           Inl exn \<Rightarrow> (Some (Collaborator exn), s)
         | Inr (cur, w) \<Rightarrow> (None, s\<lparr>l3_current := cur, l3_world := w\<rparr>))
      else if length pools = 1 then
        (case get_subnetpool P (l3_world s) (hd pools) of
           Inl exn \<Rightarrow> (Some (Collaborator exn), s)
         | Inr sp \<Rightarrow>
             if \<not> truthy (sp_address_scope_id sp) then (Some NoAddressScopeForSubnetpool, s)
             else
               (let row1 = (if length (sp_prefixes sp) = 1
                            then (l3_row s)\<lparr>row_ip_pool := Some (hd (sp_prefixes sp))\<rparr>
                            else l3_row s);
                    row2 = set_row_ascp ascp (sp_address_scope_id sp) row1;
                    row3 = row2\<lparr>row_subnet_prefix_length := Some (sp_default_prefixlen sp)\<rparr>
                in (None, s\<lparr>l3_row := row3\<rparr>)))
      else
        (case check_pools P (l3_world s) ascp pools None (l3_row s) of
           (Some e, row) \<Rightarrow> (Some e, s\<lparr>l3_row := row\<rparr>)
         | (None, row) \<Rightarrow>
             (None, s\<lparr>l3_row := row\<lparr>row_ip_pool := None,
                                    row_subnet_prefix_length := None\<rparr>\<rparr>)))"

text \<open>At most one explicit router; an implicit one when none is given.\<close>

definition l3_routers :: "'w l3p_plugin \<Rightarrow> 'w l3p_context \<Rightarrow> error option \<times> 'w l3p_context" where
  "l3_routers P s =
     (let l3p = l3_current s in
      if length (routers l3p) > 1 then (Some L3PolicyMultipleRoutersNotSupported, s)
      else
        (case reject_invalid_router_access P l3p (l3_world s) of
           Some exn \<Rightarrow> (Some (Collaborator exn), s)
         | None \<Rightarrow>
             if routers l3p = [] then
               (case use_implicit_router P l3p (l3_world s) of
                  Inl exn \<Rightarrow> (Some (Collaborator exn), s)
                | Inr (cur, w) \<Rightarrow> (None, s\<lparr>l3_current := cur, l3_world := w\<rparr>))
             else (None, s)))"

text \<open>The routers are plugged to the external segments already referenced.\<close>

definition l3_plug :: "'w l3p_plugin \<Rightarrow> 'w l3p_context \<Rightarrow> error option \<times> 'w l3p_context" where
  "l3_plug P s =
     (if external_segments (l3_current s) \<noteq> [] then
        (case plug_l3p_routers_to_ext_segment P (l3_current s) (l3_world s) of
           Inl exn \<Rightarrow> (Some (Collaborator exn), s)
         | Inr (cur, w) \<Rightarrow> (None, s\<lparr>l3_current := cur, l3_world := w\<rparr>))
      else (None, s))"

definition create_l3_policy_precommit ::
  "'w l3p_plugin \<Rightarrow> 'w l3p_context \<Rightarrow> error option \<times> 'w l3p_context" where
  "create_l3_policy_precommit P s =
     (case l3_validate P s of
        Some e \<Rightarrow> (Some e, s)
      | None \<Rightarrow>
          (case l3_family s of (ascp0, s1) \<Rightarrow>
             (case l3_address_scope P ascp0 s1 of
                (Some e, ascp, s2) \<Rightarrow> (Some e, s2)
              | (None, ascp, s2) \<Rightarrow>
                  (case l3_subnetpools P ascp s2 of
                     (Some e, s3) \<Rightarrow> (Some e, s3)
                   | (None, s3) \<Rightarrow>
                       (case l3_routers P s3 of
                          (Some e, s4) \<Rightarrow> (Some e, s4)
                        | (None, s4) \<Rightarrow> l3_plug P s4)))))"

section \<open>Vocabulary for the properties of the store\<close>

text \<open>
  The table after a create with overwrite, which never fails; a list of such writes
  done in order; and what a list of writes makes of one row that is in the table.
\<close>

definition aim_overwrite :: "('a \<Rightarrow> 'k) \<Rightarrow> 'a \<Rightarrow> 'a list \<Rightarrow> 'a list" where
  "aim_overwrite ident res table =
     (if list_ex (\<lambda>row. ident row = ident res) table
      then map (\<lambda>row. if ident row = ident res then res else row) table
      else table @ [res])"

definition aim_overwrites :: "('a \<Rightarrow> 'k) \<Rightarrow> 'a list \<Rightarrow> 'a list \<Rightarrow> 'a list" where
  "aim_overwrites ident writes table = fold (aim_overwrite ident) writes table"

fun settle :: "('a \<Rightarrow> 'k) \<Rightarrow> 'a list \<Rightarrow> 'a \<Rightarrow> 'a" where
  "settle ident [] row = row"
| "settle ident (res # writes) row =
     settle ident writes (if ident row = ident res then res else row)"

text \<open>
  The resources that one run of the creation procedure writes for an item of the
  dictionary of contracts: its filters, its filter entries and its contract subject.
\<close>

definition written_filters :: "driver \<Rightarrow> string \<Rightarrow> string \<Rightarrow> (string \<times> attrs) list \<Rightarrow> Filter list" where
  "written_filters D tenant_id pfx entries =
     map (\<lambda>entry. implicit_filter D tenant_id pfx (fst entry)) entries"

definition written_entries ::
  "driver \<Rightarrow> string \<Rightarrow> string \<Rightarrow> (string \<times> attrs) list \<Rightarrow> FilterEntry list" where
  "written_entries D tenant_id pfx entries =
     map (\<lambda>entry. aim_filter_entry D (implicit_filter D tenant_id pfx (fst entry)) (fst entry)
                     (map_to_aim_filter_entry (lib D) (snd entry))) entries"

definition written_subject ::
  "driver \<Rightarrow> string \<Rightarrow> string \<times> (string \<times> attrs) list \<Rightarrow> ContractSubject" where
  "written_subject D tenant_id item =
     aim_contract_subject D (implicit_contract D tenant_id (fst item)) [] []
       (map f_name (written_filters D tenant_id (fst item) (snd item)))"

section \<open>A small configuration\<close>

text \<open>
  A concrete driver, used to run the definitions on concrete inputs: a name mapper that
  puts the prefix before the identifier, the three protocols with a return path, one
  infrastructure-service entry and one ARP entry.
\<close>

definition sample_name_mapper :: name_mapper where
  "sample_name_mapper =
     \<lparr>nm_tenant = (\<lambda>tenant_id. tenant_id),
      nm_network = (\<lambda>network_id network_name. network_id),
      nm_policy_rule = (\<lambda>rule_id resource_name prefix_kw.
         (case prefix_kw of None \<Rightarrow> [] | Some p \<Rightarrow> p) @ rule_id),
      nm_policy_rule_set = (\<lambda>resource_id resource_name prefix_kw.
         (case prefix_kw of None \<Rightarrow> [] | Some p \<Rightarrow> p) @
         (case resource_id of None \<Rightarrow> [] | Some i \<Rightarrow> i))\<rparr>"

definition sample_alib :: alib where
  "sample_alib =
     \<lparr>REVERSE_PREFIX = ''reverse-'',
      SERVICE_PREFIX = ''Svc-'',
      IMPLICIT_PREFIX = ''implicit-'',
      PER_PROJECT = ''per-project'',
      REVERSIBLE_PROTOCOLS = [''tcp'', ''udp'', ''icmp''],
      get_service_contract_filter_entries = [(''dns'', [(''prot'', ''udp'')])],
      get_arp_filter_entry = [(''arp'', [(''etherT'', ''arp'')])],
      map_to_aim_filter_entry = (\<lambda>filter_entry_attrs. filter_entry_attrs)\<rparr>"

definition sample_driver :: driver where
  "sample_driver =
     \<lparr>name_mapper = sample_name_mapper,
      lib = sample_alib,
      ap_name = ''OpenStack'',
      sanitize_display_name = (\<lambda>name. name),
      md5_hexdigest = (\<lambda>data. ''d41d8cd9''),
      create_auto_ptg = True\<rparr>"

definition empty_aim_db :: aim_db where
  "empty_aim_db =
     \<lparr>contracts = [], contract_subjects = [], filters = [], filter_entries = [],
      endpoint_groups = []\<rparr>"

text \<open>
  A plugin whose world is the list of policy rules and the list of classifiers it holds.
\<close>

definition sample_prs_plugin :: "(policy_rule list \<times> policy_classifier list) prs_plugin" where
  "sample_prs_plugin =
     \<lparr>get_policy_rules = (\<lambda>w ids. filter (\<lambda>r. pr_id r \<in> set ids) (fst w)),
      get_policy_classifier = (\<lambda>w i.
         case find (\<lambda>c. pc_id c = i) (snd w) of
           None \<Rightarrow> Inl ''PolicyClassifierNotFound''
         | Some c \<Rightarrow> Inr c)\<rparr>"

text \<open>
  A rule whose classifier has no protocol with a return path, so that the library
  derives forward entries only; its classifier; a rule set with that one rule.
\<close>

definition any_rule :: policy_rule where
  "any_rule = \<lparr>pr_id = ''r1'', pr_name = ''allow-any'', pr_tenant_id = ''t1'',
                policy_classifier_id = ''c1''\<rparr>"

definition any_classifier :: policy_classifier where
  "any_classifier = \<lparr>pc_id = ''c1'', direction = Some ''in'', protocol = None\<rparr>"

definition any_entries :: rule_filter_entries where
  "any_entries = \<lparr>forward_rules = [(''os-entry-0'', [(''etherT'', ''unspecified'')])],
                   reverse_rules = []\<rparr>"

definition one_rule_set :: policy_rule_set where
  "one_rule_set = \<lparr>prs_id = ''s1'', prs_name = ''web'', prs_tenant_id = ''t1'',
                    child_policy_rule_sets = [], policy_rules = [''r1'']\<rparr>"

definition db_after_any_rule :: aim_db where
  "db_after_any_rule =
     \<lparr>contracts = [], contract_subjects = [],
      filters = [\<lparr>f_tenant_name = ''t1'', f_name = ''r1'', f_display_name = ''allow-any''\<rparr>],
      filter_entries =
        [\<lparr>fe_tenant_name = ''t1'', fe_filter_name = ''r1'', fe_name = ''os-entry-0'',
          fe_display_name = ''r1'', fe_attrs = [(''etherT'', ''unspecified'')]\<rparr>],
      endpoint_groups = []\<rparr>"

text \<open>
  A world for the endpoint-group operations: the rows of the groups and of the bridging
  domains, the networks, and the subnets with the network each belongs to. The
  collaborators over it look rows up by identifier and allocate a subnet named after
  the bridging domain.
\<close>

record sample_world =
  sw_ptgs :: "policy_target_group list"
  sw_l2ps :: "l2_policy list"
  sw_networks :: "network list"
  sw_subnets :: "(string \<times> string) list"

definition sample_ptg_plugin :: "sample_world ptg_plugin" where
  "sample_ptg_plugin =
     \<lparr>query_ptg_mapping = (\<lambda>w i. find (\<lambda>p. ptg_id p = i) (sw_ptgs w)),
      query_l2p_mapping = (\<lambda>w i. find (\<lambda>l. Some (l2p_id l) = i) (sw_l2ps w)),
      get_network = (\<lambda>w i.
         case find (\<lambda>n. net_id n = i) (sw_networks w) of
           None \<Rightarrow> Inl ''NetworkNotFound'' | Some n \<Rightarrow> Inr n),
      get_policy_target_group_row = (\<lambda>w i.
         case find (\<lambda>p. ptg_id p = i) (sw_ptgs w) of
           None \<Rightarrow> Inl ''PolicyTargetGroupNotFound'' | Some p \<Rightarrow> Inr p),
      get_l2_policy_row = (\<lambda>w i.
         case find (\<lambda>l. Some (l2p_id l) = i) (sw_l2ps w) of
           None \<Rightarrow> Inl ''L2PolicyNotFound'' | Some l \<Rightarrow> Inr l),
      set_row_l2_policy_id = (\<lambda>i v w.
         w\<lparr>sw_ptgs := map (\<lambda>p. if ptg_id p = i then p\<lparr>l2_policy_id := v\<rparr> else p)
                         (sw_ptgs w)\<rparr>),
      create_implicit_l2_policy = (\<lambda>cur w. Inl ''L2PolicyCreationFailed''),
      get_aim_domains = (\<lambda>w. ([], [])),
      cleanup_l2_policy = (\<lambda>i w. Inr (w\<lparr>sw_l2ps := filter (\<lambda>l. l2p_id l \<noteq> i) (sw_l2ps w)\<rparr>)),
      get_subnets_by_network = (\<lambda>w n. map snd (filter (\<lambda>row. fst row = n) (sw_subnets w))),
      use_implicit_subnet_from_subnetpool = (\<lambda>name cur w.
         Inr ([name], cur\<lparr>subnets := subnets cur @ [name]\<rparr>,
              w\<lparr>sw_subnets := sw_subnets w @ [(''net1'', name)]\<rparr>)),
      add_subnets = (\<lambda>subs cur w. (cur\<lparr>subnets := subnets cur @ subs\<rparr>, w)),
      sync_ptg_subnets = (\<lambda>l2p w. Inr w),
      get_l3p_routers_for_l2policy = (\<lambda>w i. Inr []),
      attach_router_to_subnets = (\<lambda>r added w. Inr w),
      process_subnets_for_ptg_delete = (\<lambda>ptg i w. Inr w)\<rparr>"

text \<open>
  One bridging domain on one network; the default group of the network and the group
  of an ordinary endpoint group \<^verbatim>\<open>g1\<close> in the store, the latter with a contract name
  \<^verbatim>\<open>manual\<close> that no policy reference gives.
\<close>

definition net1 :: network where
  "net1 = \<lparr>net_id = ''net1'', net_name = ''n'', net_tenant_id = ''t1'',
           default_epg_dn = (''t1'', ''OpenStack'', ''net1'')\<rparr>"

definition l2p1 :: l2_policy where
  "l2p1 = \<lparr>l2p_id = ''l2p1'', l2p_name = ''bd'', l2p_tenant_id = ''t1'',
            network_id = ''net1'', l2p_shared = False, policy_target_groups = []\<rparr>"

definition default_epg :: EndpointGroup where
  "default_epg =
     \<lparr>epg_tenant_name = ''t1'', epg_app_profile_name = ''OpenStack'', epg_name = ''net1'',
      epg_display_name = ''n'', bd_name = ''net1'', bd_tenant_name = ''t1'',
      provided_contract_names = [], consumed_contract_names = [],
      openstack_vmm_domain_names = [], physical_domain_names = []\<rparr>"

definition g1_epg :: EndpointGroup where
  "g1_epg =
     \<lparr>epg_tenant_name = ''t1'', epg_app_profile_name = ''OpenStack'', epg_name = ''g1'',
      epg_display_name = ''web'', bd_name = ''net1'', bd_tenant_name = ''t1'',
      provided_contract_names = [''s1'', ''manual''], consumed_contract_names = [''s2''],
      openstack_vmm_domain_names = [], physical_domain_names = []\<rparr>"

definition g1_original :: policy_target_group where
  "g1_original =
     \<lparr>ptg_id = ''g1'', ptg_name = ''web'', ptg_tenant_id = ''t1'',
      l2_policy_id = Some ''l2p1'', subnets = [],
      provided_policy_rule_sets = [''s1''], consumed_policy_rule_sets = [''s2''],
      shared = False\<rparr>"

definition g1_current :: policy_target_group where
  "g1_current =
     \<lparr>ptg_id = ''g1'', ptg_name = ''web2'', ptg_tenant_id = ''t1'',
      l2_policy_id = Some ''l2p1'', subnets = [],
      provided_policy_rule_sets = [''s3''], consumed_policy_rule_sets = [''s2''],
      shared = False\<rparr>"

definition g1_context :: "sample_world ptg_context" where
  "g1_context =
     \<lparr>ctx_current = g1_current,
      ctx_aim = empty_aim_db\<lparr>endpoint_groups := [default_epg, g1_epg]\<rparr>,
      ctx_world = \<lparr>sw_ptgs = [g1_original], sw_l2ps = [l2p1], sw_networks = [net1],
                   sw_subnets = [(''net1'', ''sn1'')]\<rparr>\<rparr>"

definition g1_epg_updated :: EndpointGroup where
  "g1_epg_updated =
     g1_epg\<lparr>epg_display_name := ''web2'', provided_contract_names := [''manual'', ''s3''],
            consumed_contract_names := [''s2'']\<rparr>"

definition g1_context_updated :: "sample_world ptg_context" where
  "g1_context_updated =
     g1_context\<lparr>ctx_aim := empty_aim_db\<lparr>endpoint_groups := [default_epg, g1_epg_updated]\<rparr>\<rparr>"

text \<open>
  An endpoint group whose identifier starts with the automatic prefix without being
  the identifier derived from its bridging domain, given explicit subnets.
\<close>

definition a1_current :: policy_target_group where
  "a1_current =
     \<lparr>ptg_id = ''auto-mine'', ptg_name = ''mine'', ptg_tenant_id = ''t1'',
      l2_policy_id = Some ''l2p1'', subnets = [''sn9''],
      provided_policy_rule_sets = [], consumed_policy_rule_sets = [],
      shared = False\<rparr>"

definition a1_context :: "sample_world ptg_context" where
  "a1_context =
     \<lparr>ctx_current = a1_current,
      ctx_aim = empty_aim_db\<lparr>endpoint_groups := [default_epg]\<rparr>,
      ctx_world = \<lparr>sw_ptgs = [a1_current], sw_l2ps = [l2p1], sw_networks = [net1],
                   sw_subnets = [(''net1'', ''sn1'')]\<rparr>\<rparr>"

text \<open>
  The collaborators of the bridging-domain operations over the same world: the base
  class has nothing to add, the plugin counts the rows of the bridging domains, and
  groups are created and deleted as rows.
\<close>

definition sample_l2p_plugin :: "sample_world l2p_plugin" where
  "sample_l2p_plugin =
     \<lparr>super_create_l2_policy_precommit = (\<lambda>cur w. Inr (cur, w)),
      super_delete_l2_policy_precommit = (\<lambda>cur w. Inr w),
      get_l2_policies_count = (\<lambda>w. length (sw_l2ps w)),
      create_policy_target_group = (\<lambda>data w.
         Inr (w\<lparr>sw_ptgs := sw_ptgs w @
                  [\<lparr>ptg_id = apd_id data, ptg_name = apd_name data, ptg_tenant_id = ''t1'',
                    l2_policy_id = Some (apd_l2_policy_id data), subnets = [],
                    provided_policy_rule_sets = [], consumed_policy_rule_sets = [],
                    shared = apd_shared data\<rparr>]\<rparr>)),
      db_delete_policy_target_group = (\<lambda>i w.
         Inr (w\<lparr>sw_ptgs := filter (\<lambda>p. ptg_id p \<noteq> i) (sw_ptgs w)\<rparr>))\<rparr>"

text \<open>
  The only bridging domain of tenant \<^verbatim>\<open>t1\<close>, on a network whose default group is in the
  store: the context in which it is created.
\<close>

definition store_with_default_epg :: aim_db where
  "store_with_default_epg = empty_aim_db\<lparr>endpoint_groups := [default_epg]\<rparr>"

definition first_l2p_context :: "sample_world l2p_context" where
  "first_l2p_context =
     \<lparr>lctx_current = l2p1,
      lctx_aim = store_with_default_epg,
      lctx_world = \<lparr>sw_ptgs = [], sw_l2ps = [l2p1], sw_networks = [net1], sw_subnets = []\<rparr>\<rparr>"

text \<open>
  The store once the shared implicit contracts of tenant \<^verbatim>\<open>t1\<close> are created and attached
  to the default group, and the contexts after the creation and after the deletion of
  that bridging domain.
\<close>

definition configured_default_epg :: EndpointGroup where
  "configured_default_epg =
     default_epg\<lparr>provided_contract_names := [''Svc-t1'', ''implicit-t1''],
                 consumed_contract_names := [''implicit-t1'']\<rparr>"

definition implicit_store :: aim_db where
  "implicit_store =
     \<lparr>contracts =
        [\<lparr>ct_tenant_name = ''t1'', ct_name = ''Svc-t1'', ct_display_name = ''per-project''\<rparr>,
         \<lparr>ct_tenant_name = ''t1'', ct_name = ''implicit-t1'',
           ct_display_name = ''per-project''\<rparr>],
      contract_subjects =
        [\<lparr>cs_tenant_name = ''t1'', cs_contract_name = ''Svc-t1'', cs_name = ''Svc-t1'',
           cs_display_name = ''Svc-t1'', in_filters = [], out_filters = [],
           bi_filters = [''Svc-dns-t1'']\<rparr>,
         \<lparr>cs_tenant_name = ''t1'', cs_contract_name = ''implicit-t1'',
           cs_name = ''implicit-t1'', cs_display_name = ''implicit-t1'', in_filters = [],
           out_filters = [], bi_filters = [''implicit-arp-t1'']\<rparr>],
      filters =
        [\<lparr>f_tenant_name = ''t1'', f_name = ''Svc-dns-t1'', f_display_name = ''per-project''\<rparr>,
         \<lparr>f_tenant_name = ''t1'', f_name = ''implicit-arp-t1'',
           f_display_name = ''per-project''\<rparr>],
      filter_entries =
        [\<lparr>fe_tenant_name = ''t1'', fe_filter_name = ''Svc-dns-t1'', fe_name = ''dns'',
           fe_display_name = ''Svc-dns-t1'', fe_attrs = [(''prot'', ''udp'')]\<rparr>,
         \<lparr>fe_tenant_name = ''t1'', fe_filter_name = ''implicit-arp-t1'', fe_name = ''arp'',
           fe_display_name = ''implicit-arp-t1'', fe_attrs = [(''etherT'', ''arp'')]\<rparr>],
      endpoint_groups = [configured_default_epg]\<rparr>"

definition created_l2p_context :: "sample_world l2p_context" where
  "created_l2p_context =
     \<lparr>lctx_current = l2p1,
      lctx_aim = implicit_store,
      lctx_world =
        \<lparr>sw_ptgs =
           [\<lparr>ptg_id = ''autod41d8cd9'', ptg_name = ''auto-ptg-l2p1'', ptg_tenant_id = ''t1'',
             l2_policy_id = Some ''l2p1'', subnets = [], provided_policy_rule_sets = [],
             consumed_policy_rule_sets = [], shared = False\<rparr>],
         sw_l2ps = [l2p1], sw_networks = [net1], sw_subnets = []\<rparr>\<rparr>"

definition deleted_l2p_context :: "sample_world l2p_context" where
  "deleted_l2p_context =
     \<lparr>lctx_current = l2p1,
      lctx_aim = empty_aim_db\<lparr>endpoint_groups := [configured_default_epg]\<rparr>,
      lctx_world = \<lparr>sw_ptgs = [], sw_l2ps = [l2p1], sw_networks = [net1], sw_subnets = []\<rparr>\<rparr>"

text \<open>
  A world for the creation of a routing domain: the subnet pools and the external
  segments it can look up, and the list of what the implicit resource manager has
  allocated so far.
\<close>

record sample_l3_world =
  l3w_subnetpools :: "subnetpool list"
  l3w_segments :: "external_segment list"
  l3w_allocated :: "string list"

definition sample_l3p_plugin :: "sample_l3_world l3p_plugin" where
  "sample_l3p_plugin =
     \<lparr>get_external_segments = (\<lambda>w ids. filter (\<lambda>e. es_id e \<in> set ids) (l3w_segments w)),
      get_subnet_network_id = (\<lambda>w i. Inr None),
      get_ext_network = (\<lambda>w i. Inr None),
      get_subnetpool = (\<lambda>w i.
         case find (\<lambda>p. sp_id p = i) (l3w_subnetpools w) of
           None \<Rightarrow> Inl ''SubnetPoolNotFound'' | Some p \<Rightarrow> Inr p),
      use_implicit_address_scope = (\<lambda>cur w.
         Inr (cur\<lparr>address_scope_v4_id := Some ''implicit-scope''\<rparr>,
              w\<lparr>l3w_allocated := l3w_allocated w @ [''address_scope'']\<rparr>)),
      use_implicit_subnetpool = (\<lambda>scope version cur w.
         Inr (cur\<lparr>subnetpools_v4 := [''implicit-pool'']\<rparr>,
              w\<lparr>l3w_allocated := l3w_allocated w @ [''subnetpool'']\<rparr>)),
      reject_invalid_router_access = (\<lambda>cur w. None),
      use_implicit_router = (\<lambda>cur w.
         Inr (cur\<lparr>routers := [''implicit-router'']\<rparr>,
              w\<lparr>l3w_allocated := l3w_allocated w @ [''router'']\<rparr>)),
      plug_l3p_routers_to_ext_segment = (\<lambda>cur w.
         Inr (cur, w\<lparr>l3w_allocated := l3w_allocated w @ [''plug'']\<rparr>))\<rparr>"

text \<open>
  Four subnet pools: two of address scope \<^verbatim>\<open>scope-a\<close>, one with a single prefix, one
  with no address scope, and one of address scope \<^verbatim>\<open>scope-b\<close>.
\<close>

definition pool_a :: subnetpool where
  "pool_a = \<lparr>sp_id = ''pool-a'', sp_address_scope_id = Some ''scope-a'',
             sp_prefixes = [''10.10.0.0/16''], sp_default_prefixlen = 26\<rparr>"

definition pool_a2 :: subnetpool where
  "pool_a2 = \<lparr>sp_id = ''pool-a2'', sp_address_scope_id = Some ''scope-a'',
              sp_prefixes = [''192.168.0.0/16'', ''172.16.0.0/12''], sp_default_prefixlen = 28\<rparr>"

definition pool_unscoped :: subnetpool where
  "pool_unscoped = \<lparr>sp_id = ''pool-u'', sp_address_scope_id = None,
                    sp_prefixes = [''10.1.0.0/16''], sp_default_prefixlen = 24\<rparr>"

definition pool_b :: subnetpool where
  "pool_b = \<lparr>sp_id = ''pool-b'', sp_address_scope_id = Some ''scope-b'',
             sp_prefixes = [''10.20.0.0/16''], sp_default_prefixlen = 26\<rparr>"

definition sample_l3_world0 :: sample_l3_world where
  "sample_l3_world0 =
     \<lparr>l3w_subnetpools = [pool_a, pool_a2, pool_unscoped, pool_b],
      l3w_segments = [\<lparr>es_id = ''es1'', es_subnet_id = ''ext-sn'', es_l3_policies = []\<rparr>],
      l3w_allocated = []\<rparr>"

definition fresh_row :: l3_policy_row where
  "fresh_row = \<lparr>row_ip_version = 4, row_ip_pool = Some ''10.0.0.0/8'',
                row_subnet_prefix_length = Some 24,
                row_address_scope_v4_id = None, row_address_scope_v6_id = None\<rparr>"

definition plain_l3p :: l3_policy where
  "plain_l3p = \<lparr>l3p_id = ''l3p1'', l3p_name = ''rd'', l3p_tenant_id = ''t1'',
                address_scope_v4_id = None, address_scope_v6_id = None,
                subnetpools_v4 = [], subnetpools_v6 = [], routers = [],
                external_segments = [], ip_version = 4\<rparr>"

definition l3_context_of :: "l3_policy \<Rightarrow> sample_l3_world l3p_context" where
  "l3_context_of l3p = \<lparr>l3_current = l3p, l3_row = fresh_row, l3_world = sample_l3_world0\<rparr>"

text \<open>
  Routing domains to create: with both address scopes; with both address scopes and
  two addresses on one external segment; with one pool; with two pools of one scope;
  with a scoped and an unscoped pool; with two pools of different scopes.
\<close>

definition both_scopes_l3p :: l3_policy where
  "both_scopes_l3p =
     plain_l3p\<lparr>address_scope_v4_id := Some ''scope-a'', address_scope_v6_id := Some ''scope-6''\<rparr>"

definition both_scopes_two_addresses_l3p :: l3_policy where
  "both_scopes_two_addresses_l3p =
     both_scopes_l3p\<lparr>external_segments := [(''es1'', [''203.0.113.1'', ''203.0.113.2''])]\<rparr>"








section \<open>Properties of the status aggregation\<close>

lemma map_aim_status_cases:
  "map_aim_status x = STATUS_ACTIVE \<or> map_aim_status x = STATUS_BUILD \<or>
   map_aim_status x = STATUS_ERROR"
  by (simp add: map_aim_status_def split: option.splits)

lemma merge_aim_loop_priority:
  "m \<in> {STATUS_ACTIVE, STATUS_BUILD} \<Longrightarrow>
   merge_aim_loop m objs = highest_priority (insert m (set (map map_aim_status objs)))"
proof (induction objs arbitrary: m)
  case Nil
  then show ?case by (auto simp: highest_priority_def)
next
  case (Cons a objs)
  consider "map_aim_status a = STATUS_ACTIVE" | "map_aim_status a = STATUS_BUILD"
    | "map_aim_status a = STATUS_ERROR"
    using map_aim_status_cases by blast
  then show ?case
  proof cases
    case 1
    have "merge_aim_loop m (a # objs) = merge_aim_loop m objs"
      using 1 Cons.prems by auto
    also have "\<dots> = highest_priority (insert m (set (map map_aim_status objs)))"
      using Cons.IH [of m] Cons.prems by simp
    also have "\<dots> = highest_priority (insert m (set (map map_aim_status (a # objs))))"
      using 1 by (auto simp: highest_priority_def)
    finally show ?thesis .
  next
    case 2
    have "merge_aim_loop m (a # objs) = merge_aim_loop STATUS_BUILD objs"
      using 2 by simp
    also have "\<dots> = highest_priority (insert STATUS_BUILD (set (map map_aim_status objs)))"
      using Cons.IH [of STATUS_BUILD] by simp
    also have "\<dots> = highest_priority (insert m (set (map map_aim_status (a # objs))))"
      using 2 Cons.prems by (auto simp: highest_priority_def)
    finally show ?thesis .
  next
    case 3
    then show ?thesis by (simp add: highest_priority_def)
  qed
qed

lemma merge_gbp_loop_priority:
  "m \<in> {STATUS_ACTIVE, STATUS_BUILD} \<Longrightarrow>
   merge_gbp_loop m sts = highest_priority (insert m (set sts))"
proof (induction sts arbitrary: m)
  case Nil
  then show ?case by (auto simp: highest_priority_def)
next
  case (Cons a sts)
  show ?case
  proof (cases "a = STATUS_BUILD")
    case True
    have "merge_gbp_loop m (a # sts) = highest_priority (insert STATUS_BUILD (set sts))"
      using True Cons.IH [of STATUS_BUILD] by simp
    also have "\<dots> = highest_priority (insert m (set (a # sts)))"
      using True Cons.prems by (auto simp: highest_priority_def)
    finally show ?thesis .
  next
    case nb: False
    show ?thesis
    proof (cases "a = STATUS_ERROR")
      case True
      then show ?thesis by (simp add: highest_priority_def)
    next
      case False
      have "merge_gbp_loop m (a # sts) = highest_priority (insert m (set sts))"
        using nb False Cons.IH [of m] Cons.prems by simp
      also have "\<dots> = highest_priority (insert m (set (a # sts)))"
        using nb False by (auto simp: highest_priority_def)
      finally show ?thesis .
    qed
  qed
qed

text \<open>
  C1 (as the code has it). Merging follows the priority ERROR > BUILD > ACTIVE over the
  listed statuses, both for fetched fabric statuses and for policy-side statuses; over
  no status at all the priority rule gives ACTIVE, so the merge of an empty list is
  ACTIVE.
\<close>

theorem merge_status_priority:
  "merge_aim_status objs = highest_priority (set (map map_aim_status objs)) \<and>
   merge_gbp_status sts = highest_priority (set sts) \<and>
   merge_aim_status [] = STATUS_ACTIVE \<and>
   merge_gbp_status [] = STATUS_ACTIVE"
proof -
  have "merge_aim_status objs = highest_priority (insert STATUS_ACTIVE (set (map map_aim_status objs)))"
    unfolding merge_aim_status_def by (rule merge_aim_loop_priority) simp
  moreover have "merge_gbp_status sts = highest_priority (insert STATUS_ACTIVE (set sts))"
    unfolding merge_gbp_status_def by (rule merge_gbp_loop_priority) simp
  moreover have "highest_priority (insert STATUS_ACTIVE S) = highest_priority S" for S
    by (simp add: highest_priority_def)
  ultimately show ?thesis
    by (simp add: merge_aim_status_def merge_gbp_status_def)
qed

text \<open>
  The rule at the sets of the specification: {ACTIVE, BUILD} merges to BUILD and
  {ACTIVE, ERROR, BUILD} merges to ERROR.
\<close>

theorem merge_status_priority_witness:
  "merge_gbp_status [STATUS_ACTIVE, STATUS_BUILD] = STATUS_BUILD \<and>
   merge_gbp_status [STATUS_ACTIVE, STATUS_ERROR, STATUS_BUILD] = STATUS_ERROR \<and>
   merge_aim_status
     [Some \<lparr>is_error = False, is_build = False\<rparr>, Some \<lparr>is_error = False, is_build = True\<rparr>]
     = STATUS_BUILD \<and>
   merge_aim_status
     [Some \<lparr>is_error = False, is_build = False\<rparr>, Some \<lparr>is_error = True, is_build = False\<rparr>,
      None] = STATUS_ERROR"
  using merge_status_priority [of "[]" "[STATUS_ACTIVE, STATUS_BUILD]"]
    merge_status_priority [of "[]" "[STATUS_ACTIVE, STATUS_ERROR, STATUS_BUILD]"]
    merge_status_priority [of "[Some \<lparr>is_error = False, is_build = False\<rparr>,
      Some \<lparr>is_error = False, is_build = True\<rparr>]" "[]"]
    merge_status_priority [of "[Some \<lparr>is_error = False, is_build = False\<rparr>,
      Some \<lparr>is_error = True, is_build = False\<rparr>, None]" "[]"]
  by (simp add: highest_priority_def map_aim_status_def)

text \<open>
  C1 as stated fails at the empty list: neither merge yields BUILD there.
\<close>

theorem merge_empty_counterexample:
  "merge_aim_status [] \<noteq> STATUS_BUILD \<and> merge_gbp_status [] \<noteq> STATUS_BUILD"
  by (simp add: merge_aim_status_def merge_gbp_status_def)

section \<open>Properties of the classifier update\<close>

text \<open>
  C4 (as the code has it). An update of a classifier is rejected when the new direction
  differs from the original one, and when exactly one of the two protocols has a return
  path; an update that keeps the direction and stays on the same side of that division
  is accepted, also when it changes the protocol.
\<close>

theorem classifier_update_rejection:
  "(direction original \<noteq> direction current \<longrightarrow>
      update_policy_classifier_precommit D original current = Inl BareException) \<and>
   (py_in (protocol original) (REVERSIBLE_PROTOCOLS (lib D)) \<noteq>
    py_in (protocol current) (REVERSIBLE_PROTOCOLS (lib D)) \<longrightarrow>
      update_policy_classifier_precommit D original current = Inl BareException) \<and>
   (direction original = direction current \<and>
    py_in (protocol original) (REVERSIBLE_PROTOCOLS (lib D)) =
    py_in (protocol current) (REVERSIBLE_PROTOCOLS (lib D)) \<longrightarrow>
      update_policy_classifier_precommit D original current = Inr ())"
  by (simp add: update_policy_classifier_precommit_def)

theorem classifier_update_rejection_witness:
  "update_policy_classifier_precommit sample_driver
     \<lparr>pc_id = ''c1'', direction = Some ''in'', protocol = Some ''tcp''\<rparr>
     \<lparr>pc_id = ''c1'', direction = Some ''out'', protocol = Some ''tcp''\<rparr> = Inl BareException \<and>
   update_policy_classifier_precommit sample_driver
     \<lparr>pc_id = ''c1'', direction = Some ''in'', protocol = Some ''tcp''\<rparr>
     \<lparr>pc_id = ''c1'', direction = Some ''in'', protocol = None\<rparr> = Inl BareException \<and>
   update_policy_classifier_precommit sample_driver
     \<lparr>pc_id = ''c1'', direction = Some ''in'', protocol = Some ''tcp''\<rparr>
     \<lparr>pc_id = ''c1'', direction = Some ''in'', protocol = Some ''icmp''\<rparr> = Inr ()"
  using
    classifier_update_rejection [of
      "\<lparr>pc_id = ''c1'', direction = Some ''in'', protocol = Some ''tcp''\<rparr>"
      "\<lparr>pc_id = ''c1'', direction = Some ''out'', protocol = Some ''tcp''\<rparr>" sample_driver]
    classifier_update_rejection [of
      "\<lparr>pc_id = ''c1'', direction = Some ''in'', protocol = Some ''tcp''\<rparr>"
      "\<lparr>pc_id = ''c1'', direction = Some ''in'', protocol = None\<rparr>" sample_driver]
    classifier_update_rejection [of
      "\<lparr>pc_id = ''c1'', direction = Some ''in'', protocol = Some ''tcp''\<rparr>"
      "\<lparr>pc_id = ''c1'', direction = Some ''in'', protocol = Some ''icmp''\<rparr>" sample_driver]
  by (simp add: py_in_def sample_driver_def sample_alib_def)

text \<open>
  C4 as stated fails: the protocol changes from TCP to UDP, and the update is accepted.
\<close>

theorem protocol_change_accepted_counterexample:
  "protocol \<lparr>pc_id = ''c1'', direction = Some ''in'', protocol = Some ''tcp''\<rparr> \<noteq>
   protocol \<lparr>pc_id = ''c1'', direction = Some ''in'', protocol = Some ''udp''\<rparr> \<and>
   update_policy_classifier_precommit sample_driver
     \<lparr>pc_id = ''c1'', direction = Some ''in'', protocol = Some ''tcp''\<rparr>
     \<lparr>pc_id = ''c1'', direction = Some ''in'', protocol = Some ''udp''\<rparr> = Inr ()"
  by (simp add: update_policy_classifier_precommit_def py_in_def sample_driver_def
      sample_alib_def)


section \<open>Properties of the contract engine\<close>

lemma and_then_simps [simp]:
  "and_then (Inl e) k = Inl e"
  "and_then (Inr v) k = k v"
  by (simp_all add: and_then_def)

text \<open>
  A rule whose reverse filter is not in the store makes the name lookup raise, whatever
  the name mapper and the store are.
\<close>

lemma get_aim_filter_names_without_reverse:
  "aim_get filter_identity (filters db) (aim_filter D pr True) = None \<Longrightarrow>
   get_aim_filter_names D db pr = Inl AttributeError"
  by (cases "aim_get filter_identity (filters db) (aim_filter D pr False)")
     (simp_all add: get_aim_filter_names_def get_aim_filters_def)

text \<open>
  Whenever the name lookup of a rule succeeds it gives two names, and so a run of the
  bucket loop that succeeds adds two names for every rule, reversible or not.
\<close>

lemma get_aim_filter_names_length:
  "get_aim_filter_names D db pr = Inr names \<Longrightarrow> length names = 2"
  by (cases "aim_get filter_identity (filters db) (aim_filter D pr False)";
      cases "aim_get filter_identity (filters db) (aim_filter D pr True)")
     (auto simp: get_aim_filter_names_def get_aim_filters_def)

lemma bucket_filters_total:
  "bucket_filters D P w db rules (in_fs, out_fs, bi_fs) = Inr (in_fs', out_fs', bi_fs') \<Longrightarrow>
   length in_fs' + length out_fs' + length bi_fs' =
   length in_fs + length out_fs + length bi_fs + 2 * length rules"
proof (induction rules arbitrary: in_fs out_fs bi_fs)
  case Nil
  then show ?case by simp
next
  case (Cons rule rules)
  from Cons.prems obtain names classifier where
    names: "get_aim_filter_names D db rule = Inr names" and
    cl: "collab (get_policy_classifier P w (policy_classifier_id rule)) = Inr classifier"
    by (auto split: sum.splits)
  have len: "length names = 2" using names by (rule get_aim_filter_names_length)
  show ?case
  proof (cases "direction classifier = Some GP_DIRECTION_IN")
    case True
    with Cons.prems names cl
    have "bucket_filters D P w db rules (in_fs @ names, out_fs, bi_fs)
            = Inr (in_fs', out_fs', bi_fs')" by simp
    from Cons.IH [OF this] len show ?thesis by simp
  next
    case not_in: False
    show ?thesis
    proof (cases "direction classifier = Some GP_DIRECTION_OUT")
      case True
      with Cons.prems names cl not_in
      have "bucket_filters D P w db rules (in_fs, out_fs @ names, bi_fs)
              = Inr (in_fs', out_fs', bi_fs')" by simp
      from Cons.IH [OF this] len show ?thesis by simp
    next
      case False
      with Cons.prems names cl not_in
      have "bucket_filters D P w db rules (in_fs, out_fs, bi_fs @ names)
              = Inr (in_fs', out_fs', bi_fs')" by simp
      from Cons.IH [OF this] len show ?thesis by simp
    qed
  qed
qed

text \<open>
  C2, at a rule set with one rule that has no reverse filter: creating the rule writes
  the forward filter only, and creating the rule set then ends in the attribute error
  instead of a contract subject with one name.
\<close>

theorem rule_set_of_forward_only_rule_raises:
  "create_policy_rule_precommit sample_driver any_entries any_rule empty_aim_db
     = Inr db_after_any_rule \<and>
   create_policy_rule_set_precommit sample_driver sample_prs_plugin
     ([any_rule], [any_classifier]) one_rule_set db_after_any_rule = Inl AttributeError \<and>
   update_policy_rule_set_precommit sample_driver sample_prs_plugin
     ([any_rule], [any_classifier]) one_rule_set db_after_any_rule = Inl AttributeError"
proof -
  have created:
    "create_policy_rule_precommit sample_driver any_entries any_rule empty_aim_db
       = Inr db_after_any_rule"
    by (simp add: create_policy_rule_precommit_def any_entries_def any_rule_def
        empty_aim_db_def db_after_any_rule_def aim_create_def aim_filter_def
        aim_tenant_name_def aim_display_name_def sample_driver_def sample_name_mapper_def
        sample_alib_def create_aim_filter_entry_def aim_filter_entry_def)
  have no_reverse:
    "aim_get filter_identity (filters db) (aim_filter sample_driver any_rule True) = None"
    if "filters db = filters db_after_any_rule" for db :: aim_db
    using that
    by (simp add: aim_get_def db_after_any_rule_def aim_filter_def any_rule_def
        filter_identity_def aim_tenant_name_def aim_display_name_def sample_driver_def
        sample_name_mapper_def sample_alib_def)
  have names: "get_aim_filter_names sample_driver db any_rule = Inl AttributeError"
    if "filters db = filters db_after_any_rule" for db :: aim_db
    using no_reverse [OF that] by (rule get_aim_filter_names_without_reverse)
  have rules: "get_policy_rules sample_prs_plugin ([any_rule], [any_classifier])
      (policy_rules one_rule_set) = [any_rule]"
    by (simp add: sample_prs_plugin_def one_rule_set_def any_rule_def)
  have populate:
    "populate_aim_contract_subject sample_driver sample_prs_plugin
       ([any_rule], [any_classifier]) db ct [any_rule] = Inl AttributeError"
    if "filters db = filters db_after_any_rule" for db :: aim_db and ct
    by (simp add: populate_aim_contract_subject_def names [OF that])
  have nochild: "child_policy_rule_sets one_rule_set = []"
    by (simp add: one_rule_set_def)
  have nocontract: "contracts db_after_any_rule = []"
    by (simp add: db_after_any_rule_def)
  have "create_policy_rule_set_precommit sample_driver sample_prs_plugin
     ([any_rule], [any_classifier]) one_rule_set db_after_any_rule = Inl AttributeError"
    by (simp add: create_policy_rule_set_precommit_def nochild nocontract rules populate
        aim_create_def)
  moreover have "update_policy_rule_set_precommit sample_driver sample_prs_plugin
     ([any_rule], [any_classifier]) one_rule_set db_after_any_rule = Inl AttributeError"
    by (simp add: update_policy_rule_set_precommit_def nochild rules populate)
  ultimately show ?thesis using created by simp
qed

section \<open>Properties of the fabric store\<close>

lemma find_replaced:
  "P x \<Longrightarrow> find P (map (\<lambda>row. if P row then x else row) xs) =
     (if list_ex P xs then Some x else None)"
  by (induction xs) auto

lemma find_appended:
  "\<not> list_ex P xs \<Longrightarrow> P x \<Longrightarrow> find P (xs @ [x]) = Some x"
  by (induction xs) auto

lemma aim_get_after_overwrite:
  "aim_create ident table res True = Inr table' \<Longrightarrow> aim_get ident table' res = Some res"
  by (auto simp: aim_create_def aim_get_def find_replaced find_appended split: if_splits)

lemma aim_get_same_identity:
  "ident res = ident res' \<Longrightarrow> aim_get ident table res = aim_get ident table res'"
  by (simp add: aim_get_def)

lemma aim_get_identity:
  "aim_get ident table res = Some row \<Longrightarrow> ident row = ident res"
  by (auto simp: aim_get_def find_Some_iff)


section \<open>Properties of the endpoint-group update\<close>

lemma set_names_after_update:
  "set (names_after_update existing old new) = (set existing - set old) \<union> set new"
  by (auto simp: names_after_update_def)

text \<open>
  What a successful update of a group that has a fabric group writes: the fetched group
  with the new contract-name lists, and with the display name of the policy object
  unless the identifier has the automatic prefix.
\<close>

lemma update_policy_target_group_written:
  assumes ok: "update_policy_target_group_precommit D P original s = Inr s'"
    and got: "get_aim_endpoint_group D P (ctx_world s) (ctx_aim s) (ctx_current s) = Inr (Some g)"
  shows "aim_get epg_identity (endpoint_groups (ctx_aim s')) g =
    Some (g\<lparr>epg_display_name :=
               (if is_auto_ptg (ctx_current s) then epg_display_name g
                else aim_display_name D (ptg_name (ctx_current s))),
            provided_contract_names :=
               names_after_update (provided_contract_names g)
                 (get_aim_contract_names D (provided_policy_rule_sets original))
                 (get_aim_contract_names D (provided_policy_rule_sets (ctx_current s))),
            consumed_contract_names :=
               names_after_update (consumed_contract_names g)
                 (get_aim_contract_names D (consumed_policy_rule_sets original))
                 (get_aim_contract_names D (consumed_policy_rule_sets (ctx_current s)))\<rparr>)"
    (is "_ = Some ?g'")
proof -
  have same: "epg_identity ?g' = epg_identity g"
    by (simp add: epg_identity_def)
  from ok got obtain rows where
    created: "aim_create epg_identity (endpoint_groups (ctx_aim s)) ?g' True = Inr rows"
    and s': "s' = s\<lparr>ctx_aim := (ctx_aim s)\<lparr>endpoint_groups := rows\<rparr>\<rparr>"
    by (cases "is_auto_ptg (ctx_current s)")
       (auto simp: update_policy_target_group_precommit_def add_contracts_for_epg_def
          Let_def and_then_def split: if_splits sum.splits)
  have "aim_get epg_identity rows ?g' = Some ?g'"
    using created by (rule aim_get_after_overwrite)
  then have "aim_get epg_identity rows g = Some ?g'"
    using aim_get_same_identity [of epg_identity ?g' g rows] same by simp
  then show ?thesis by (simp add: s')
qed

text \<open>
  C6. When the update of an endpoint group succeeds and its fabric group exists, the
  fabric group in the store afterwards carries, as provided and as consumed contract
  names, the names it had minus the names of the old policy references, together with
  the names of the new references; so a name that was on the fabric group and does not
  come from the old references is still there.
\<close>

theorem update_policy_target_group_contract_names:
  assumes "update_policy_target_group_precommit D P original s = Inr s'"
    and "get_aim_endpoint_group D P (ctx_world s) (ctx_aim s) (ctx_current s) = Inr (Some g)"
  shows "\<exists>g'. aim_get epg_identity (endpoint_groups (ctx_aim s')) g = Some g' \<and>
    set (provided_contract_names g') =
      (set (provided_contract_names g) -
       set (get_aim_contract_names D (provided_policy_rule_sets original))) \<union>
      set (get_aim_contract_names D (provided_policy_rule_sets (ctx_current s))) \<and>
    set (consumed_contract_names g') =
      (set (consumed_contract_names g) -
       set (get_aim_contract_names D (consumed_policy_rule_sets original))) \<union>
      set (get_aim_contract_names D (consumed_policy_rule_sets (ctx_current s))) \<and>
    (\<forall>n. n \<in> set (provided_contract_names g) \<and>
          n \<notin> set (get_aim_contract_names D (provided_policy_rule_sets original))
          \<longrightarrow> n \<in> set (provided_contract_names g')) \<and>
    (\<forall>n. n \<in> set (consumed_contract_names g) \<and>
          n \<notin> set (get_aim_contract_names D (consumed_policy_rule_sets original))
          \<longrightarrow> n \<in> set (consumed_contract_names g'))"
  using update_policy_target_group_written [OF assms]
  by (simp add: set_names_after_update)

theorem update_policy_target_group_contract_names_witness:
  "update_policy_target_group_precommit sample_driver sample_ptg_plugin g1_original g1_context
     = Inr g1_context_updated \<and>
   get_aim_endpoint_group sample_driver sample_ptg_plugin (ctx_world g1_context)
     (ctx_aim g1_context) (ctx_current g1_context) = Inr (Some g1_epg) \<and>
   aim_get epg_identity (endpoint_groups (ctx_aim g1_context_updated)) g1_epg
     = Some g1_epg_updated \<and>
   ''manual'' \<in> set (provided_contract_names g1_epg_updated)"
proof -
  have upd: "update_policy_target_group_precommit sample_driver sample_ptg_plugin
      g1_original g1_context = Inr g1_context_updated"
    by code_simp
  have got: "get_aim_endpoint_group sample_driver sample_ptg_plugin (ctx_world g1_context)
      (ctx_aim g1_context) (ctx_current g1_context) = Inr (Some g1_epg)"
    by code_simp
  have now: "aim_get epg_identity (endpoint_groups (ctx_aim g1_context_updated)) g1_epg
      = Some g1_epg_updated"
    by code_simp
  have "''manual'' \<in> set (provided_contract_names g1_epg)"
    by (simp add: g1_epg_def)
  moreover have "''manual'' \<notin> set (get_aim_contract_names sample_driver
      (provided_policy_rule_sets g1_original))"
    by (simp add: get_aim_contract_names_def g1_original_def sample_driver_def
        sample_name_mapper_def)
  ultimately have "''manual'' \<in> set (provided_contract_names g1_epg_updated)"
    using update_policy_target_group_contract_names [OF upd got] now by auto
  with upd got now show ?thesis by simp
qed


section \<open>Properties of the automatic-group detection\<close>

lemma and_then_Inl_iff:
  "and_then r k = Inl e \<longleftrightarrow> r = Inl e \<or> (\<exists>v. r = Inr v \<and> k v = Inl e)"
  by (cases r) simp_all

lemma collab_error: "collab r = Inl e \<Longrightarrow> \<exists>n. e = Collaborator n"
  by (cases r) (auto simp: collab_def)

lemma aim_endpoint_group_error:
  "aim_endpoint_group D P w db ptg b bt pc cc = Inl e \<Longrightarrow>
   e = TypeError \<or> e = AttributeError \<or> (\<exists>n. e = Collaborator n)"
  by (auto simp: aim_endpoint_group_def apic_epg_name_for_policy_target_group_def
      get_epg_name_from_dn_def and_then_Inl_iff
      split: option.splits if_splits dest: collab_error)

lemma delete_not_rejected:
  assumes "get_auto_ptg_id D (l2_policy_id (ctx_current s)) \<noteq> Inr (ptg_id (ctx_current s))"
  shows "delete_policy_target_group_precommit D P s \<noteq> Inl (AutoPTGDeleteNotSupported i)"
proof
  assume rej: "delete_policy_target_group_precommit D P s = Inl (AutoPTGDeleteNotSupported i)"
  show False
  proof (cases "get_auto_ptg_id D (l2_policy_id (ctx_current s))")
    case (Inl e)
    then have "e = TypeError" by (auto simp: get_auto_ptg_id_def split: option.splits)
    with Inl rej show False by (simp add: delete_policy_target_group_precommit_def)
  next
    case (Inr a)
    with assms have ne: "ptg_id (ctx_current s) \<noteq> a" by auto
    from rej Inr ne show False
      by (auto simp: delete_policy_target_group_precommit_def and_then_Inl_iff Let_def
          split: if_splits dest: collab_error aim_endpoint_group_error)
  qed
qed

lemma delete_rejected:
  "get_auto_ptg_id D (l2_policy_id (ctx_current s)) = Inr (ptg_id (ctx_current s)) \<Longrightarrow>
   delete_policy_target_group_precommit D P s
     = Inl (AutoPTGDeleteNotSupported (ptg_id (ctx_current s)))"
  by (simp add: delete_policy_target_group_precommit_def)

lemma auto_name_mapping:
  assumes "query_ptg_mapping P w i = Some ptg_db" and "is_auto_ptg ptg_db"
  shows "apic_epg_name_for_policy_target_group P w db i =
    (case query_l2p_mapping P w (l2_policy_id ptg_db) of
       None \<Rightarrow> Inl TypeError
     | Some l2p_db \<Rightarrow>
         and_then (collab (get_network P w (network_id l2p_db)))
           (\<lambda>net. get_epg_name_from_dn db (default_epg_dn net)))"
  using assms by (simp add: apic_epg_name_for_policy_target_group_def)

text \<open>
  C10. For an endpoint group whose identifier starts with the prefix \<^verbatim>\<open>auto\<close>:
  creation is the implicit-subnet step alone (so explicit subnets are not refused and
  no fabric group is built); a successful update leaves the display name of the fabric
  group as it was; the fabric name of the group is the name of the default group of its
  bridging domain's network, not the identifier. Deletion is refused with
  AutoPTGDeleteNotSupported exactly when the identifier equals \<^verbatim>\<open>auto\<close> followed by the
  MD5 digest of the bridging domain's identifier; for any other identifier with the
  prefix the deletion is never refused with that error.
\<close>

theorem auto_prefix_paths:
  assumes "prefix AUTO_PTG_PREFIX (ptg_id (ctx_current s))"
  shows "is_auto_ptg (ctx_current s) \<and>
    create_policy_target_group_precommit D P s = use_implicit_subnet P False s \<and>
    (\<forall>original s' g.
        update_policy_target_group_precommit D P original s = Inr s' \<and>
        get_aim_endpoint_group D P (ctx_world s) (ctx_aim s) (ctx_current s) = Inr (Some g)
        \<longrightarrow> (\<exists>g'. aim_get epg_identity (endpoint_groups (ctx_aim s')) g = Some g' \<and>
                  epg_display_name g' = epg_display_name g)) \<and>
    (\<forall>ptg_db. query_ptg_mapping P (ctx_world s) (ptg_id (ctx_current s)) = Some ptg_db \<and>
        ptg_id ptg_db = ptg_id (ctx_current s)
        \<longrightarrow> apic_epg_name_for_policy_target_group P (ctx_world s) (ctx_aim s)
              (ptg_id (ctx_current s)) =
            (case query_l2p_mapping P (ctx_world s) (l2_policy_id ptg_db) of
               None \<Rightarrow> Inl TypeError
             | Some l2p_db \<Rightarrow>
                 and_then (collab (get_network P (ctx_world s) (network_id l2p_db)))
                   (\<lambda>net. get_epg_name_from_dn (ctx_aim s) (default_epg_dn net)))) \<and>
    (get_auto_ptg_id D (l2_policy_id (ctx_current s)) = Inr (ptg_id (ctx_current s))
        \<longrightarrow> delete_policy_target_group_precommit D P s
              = Inl (AutoPTGDeleteNotSupported (ptg_id (ctx_current s)))) \<and>
    (get_auto_ptg_id D (l2_policy_id (ctx_current s)) \<noteq> Inr (ptg_id (ctx_current s))
        \<longrightarrow> (\<forall>i. delete_policy_target_group_precommit D P s
                    \<noteq> Inl (AutoPTGDeleteNotSupported i)))"
proof -
  have auto: "is_auto_ptg (ctx_current s)"
    using assms by (simp add: is_auto_ptg_def)
  have create: "create_policy_target_group_precommit D P s = use_implicit_subnet P False s"
    using auto by (simp add: create_policy_target_group_precommit_def)
  have update: "\<exists>g'. aim_get epg_identity (endpoint_groups (ctx_aim s')) g = Some g' \<and>
      epg_display_name g' = epg_display_name g"
    if "update_policy_target_group_precommit D P original s = Inr s'"
      and "get_aim_endpoint_group D P (ctx_world s) (ctx_aim s) (ctx_current s) = Inr (Some g)"
    for original s' g
    using update_policy_target_group_written [OF that] auto by simp
  have naming: "apic_epg_name_for_policy_target_group P (ctx_world s) (ctx_aim s)
        (ptg_id (ctx_current s)) =
      (case query_l2p_mapping P (ctx_world s) (l2_policy_id ptg_db) of
         None \<Rightarrow> Inl TypeError
       | Some l2p_db \<Rightarrow>
           and_then (collab (get_network P (ctx_world s) (network_id l2p_db)))
             (\<lambda>net. get_epg_name_from_dn (ctx_aim s) (default_epg_dn net)))"
    if "query_ptg_mapping P (ctx_world s) (ptg_id (ctx_current s)) = Some ptg_db"
      and "ptg_id ptg_db = ptg_id (ctx_current s)"
    for ptg_db
  proof (rule auto_name_mapping [OF that(1)])
    show "is_auto_ptg ptg_db" using auto that(2) by (simp add: is_auto_ptg_def)
  qed
  from auto create update naming show ?thesis
    using delete_rejected [of D s P] delete_not_rejected [of D s P] by blast
qed

theorem auto_prefix_paths_witness:
  "prefix AUTO_PTG_PREFIX (ptg_id (ctx_current a1_context)) \<and>
   get_auto_ptg_id sample_driver (l2_policy_id (ctx_current a1_context))
     \<noteq> Inr (ptg_id (ctx_current a1_context)) \<and>
   subnets (ctx_current a1_context) \<noteq> [] \<and>
   create_policy_target_group_precommit sample_driver sample_ptg_plugin a1_context
     = use_implicit_subnet sample_ptg_plugin False a1_context \<and>
   apic_epg_name_for_policy_target_group sample_ptg_plugin (ctx_world a1_context)
     (ctx_aim a1_context) (ptg_id (ctx_current a1_context)) = Inr ''net1'' \<and>
   delete_policy_target_group_precommit sample_driver sample_ptg_plugin a1_context
     \<noteq> Inl (AutoPTGDeleteNotSupported ''auto-mine'')"
proof -
  have pre: "prefix AUTO_PTG_PREFIX (ptg_id (ctx_current a1_context))"
    by (simp add: AUTO_PTG_PREFIX_def a1_context_def a1_current_def)
  have ne: "get_auto_ptg_id sample_driver (l2_policy_id (ctx_current a1_context))
      \<noteq> Inr (ptg_id (ctx_current a1_context))"
    by (simp add: get_auto_ptg_id_def AUTO_PTG_PREFIX_def a1_context_def a1_current_def
        sample_driver_def)
  have sn: "subnets (ctx_current a1_context) \<noteq> []"
    by (simp add: a1_context_def a1_current_def)
  have name: "apic_epg_name_for_policy_target_group sample_ptg_plugin (ctx_world a1_context)
      (ctx_aim a1_context) (ptg_id (ctx_current a1_context)) = Inr ''net1''"
    by code_simp
  from auto_prefix_paths [OF pre, of sample_driver sample_ptg_plugin] ne sn name pre
  show ?thesis by simp
qed

section \<open>Writes with overwrite\<close>

lemma aim_create_overwrite:
  "aim_create ident table res True = Inr (aim_overwrite ident res table)"
  by (simp add: aim_create_def aim_overwrite_def)

lemma overwrite_keys:
  "ident ` set (aim_overwrite ident x T) = insert (ident x) (ident ` set T)"
  by (auto simp: aim_overwrite_def list_ex_iff image_iff split: if_splits)

lemma overwrites_keys:
  "ident ` set (aim_overwrites ident ws T) = ident ` set ws \<union> ident ` set T"
  unfolding aim_overwrites_def
  by (induction ws arbitrary: T) (auto simp: overwrite_keys)

lemma overwrite_rows:
  "r \<in> set (aim_overwrite ident x T) \<Longrightarrow>
   (ident r = ident x \<and> r = x) \<or> (ident r \<noteq> ident x \<and> r \<in> set T)"
  by (auto simp: aim_overwrite_def list_ex_iff split: if_splits)

lemma overwrites_Cons:
  "aim_overwrites ident (x # ws) T = aim_overwrites ident ws (aim_overwrite ident x T)"
  by (simp add: aim_overwrites_def)

lemma overwrites_append:
  "aim_overwrites ident (ws @ vs) T = aim_overwrites ident vs (aim_overwrites ident ws T)"
  by (simp add: aim_overwrites_def)

lemma settle_ident: "ident (settle ident ws r) = ident r"
  by (induction ws arbitrary: r) auto

lemma settle_snoc:
  "settle ident (ws @ [x]) r =
     (if ident (settle ident ws r) = ident x then x else settle ident ws r)"
  by (induction ws arbitrary: r) auto

text \<open>Every row of a table that a list of writes has gone over is settled by it.\<close>

lemma overwrites_settled:
  "r \<in> set (aim_overwrites ident ws T) \<Longrightarrow> settle ident ws r = r"
proof (induction ws arbitrary: r rule: rev_induct)
  case Nil
  then show ?case by simp
next
  case (snoc x ws)
  from snoc.prems have "r \<in> set (aim_overwrite ident x (aim_overwrites ident ws T))"
    by (simp add: aim_overwrites_def)
  then consider "ident r = ident x" "r = x"
    | "ident r \<noteq> ident x" "r \<in> set (aim_overwrites ident ws T)"
    using overwrite_rows [of r ident x "aim_overwrites ident ws T"] by blast
  then show ?case
  proof cases
    case 1
    then show ?thesis by (simp add: settle_snoc settle_ident)
  next
    case 2
    then show ?thesis using snoc.IH [of r] by (simp add: settle_snoc)
  qed
qed

text \<open>On a table that has a row for every write, the writes only replace rows.\<close>

lemma overwrites_present:
  "ident ` set ws \<subseteq> ident ` set T \<Longrightarrow> aim_overwrites ident ws T = map (settle ident ws) T"
proof (induction ws arbitrary: T)
  case Nil
  then show ?case by (simp add: aim_overwrites_def)
next
  case (Cons x ws)
  let ?T = "map (\<lambda>row. if ident row = ident x then x else row) T"
  have present: "list_ex (\<lambda>row. ident row = ident x) T"
    using Cons.prems by (auto simp: list_ex_iff image_iff)
  then have step: "aim_overwrite ident x T = ?T"
    by (simp add: aim_overwrite_def)
  have "ident ` set ?T = (\<lambda>row. ident (if ident row = ident x then x else row)) ` set T"
    by (simp only: set_map image_image)
  also have "\<dots> = ident ` set T"
    by (rule image_cong) auto
  finally have keys: "ident ` set ?T = ident ` set T" .
  have "aim_overwrites ident (x # ws) T = aim_overwrites ident ws ?T"
    by (simp add: aim_overwrites_def step)
  also have "\<dots> = map (settle ident ws) ?T"
    using Cons.prems keys by (intro Cons.IH) auto
  also have "\<dots> = map (settle ident (x # ws)) T"
    by simp
  finally show ?case .
qed

lemma overwrites_idempotent:
  "aim_overwrites ident ws (aim_overwrites ident ws T) = aim_overwrites ident ws T"
proof -
  let ?T = "aim_overwrites ident ws T"
  have "ident ` set ws \<subseteq> ident ` set ?T"
    by (simp add: overwrites_keys)
  then have "aim_overwrites ident ws ?T = map (settle ident ws) ?T"
    by (rule overwrites_present)
  also have "\<dots> = ?T"
    by (rule map_idI) (rule overwrites_settled)
  finally show ?thesis .
qed


section \<open>Properties of the shared implicit contracts\<close>

lemma and_then_Inr_iff:
  "and_then r k = Inr v \<longleftrightarrow> (\<exists>u. r = Inr u \<and> k u = Inr v)"
  by (cases r) simp_all

text \<open>What the creation mode does to the store, entry by entry and item by item.\<close>

lemma process_entries_create:
  "process_entries D t pfx True False entries (names, db) =
     Inr (names @ map f_name (written_filters D t pfx entries),
          db\<lparr>filters := aim_overwrites filter_identity (written_filters D t pfx entries)
                          (filters db),
             filter_entries := aim_overwrites filter_entry_identity
                                 (written_entries D t pfx entries) (filter_entries db)\<rparr>)"
proof (induction entries arbitrary: names db)
  case Nil
  then show ?case by (simp add: written_filters_def written_entries_def aim_overwrites_def)
next
  case (Cons entry entries)
  obtain k v where entry: "entry = (k, v)" by (cases entry)
  let ?flt = "implicit_filter D t pfx k"
  let ?db1 = "db\<lparr>filters := aim_overwrite filter_identity ?flt (filters db),
                 filter_entries := aim_overwrite filter_entry_identity
                   (aim_filter_entry D ?flt k (map_to_aim_filter_entry (lib D) v))
                   (filter_entries db)\<rparr>"
  have step: "process_entry D t pfx True False entry (names, db)
      = Inr (names @ [f_name ?flt], ?db1)"
    by (simp add: process_entry_def entry aim_create_overwrite create_aim_filter_entry_def
        Let_def)
  show ?case
    by (simp add: step Cons.IH)
       (simp add: entry written_filters_def written_entries_def aim_overwrites_def)
qed

lemma process_contract_create:
  "\<exists>g' db'. process_contract D l2p True False False item (Some g, db) = Inr (None, Some g', db') \<and>
     epg_identity g' = epg_identity g \<and>
     contracts db' = aim_overwrite contract_identity
        (implicit_contract D (l2p_tenant_id l2p) (fst item)) (contracts db) \<and>
     contract_subjects db' = aim_overwrite contract_subject_identity
        (written_subject D (l2p_tenant_id l2p) item) (contract_subjects db) \<and>
     filters db' = aim_overwrites filter_identity
        (written_filters D (l2p_tenant_id l2p) (fst item) (snd item)) (filters db) \<and>
     filter_entries db' = aim_overwrites filter_entry_identity
        (written_entries D (l2p_tenant_id l2p) (fst item) (snd item)) (filter_entries db) \<and>
     endpoint_groups db' = aim_overwrite epg_identity g' (endpoint_groups db)"
proof -
  obtain pfx entries where item: "item = (pfx, entries)" by (cases item)
  show ?thesis
    by (cases "pfx = IMPLICIT_PREFIX (lib D)")
       (simp_all add: item process_contract_def add_contracts_for_epg_def aim_create_overwrite
          process_entries_create populate_aim_contract_subject_by_filters_def
          written_subject_def epg_identity_def Let_def)
qed

lemma process_contracts_create:
  "\<exists>db'. process_contracts D l2p True False False items (Some g, db) = Inr (None, db') \<and>
     contracts db' = aim_overwrites contract_identity
        (map (\<lambda>item. implicit_contract D (l2p_tenant_id l2p) (fst item)) items)
        (contracts db) \<and>
     contract_subjects db' = aim_overwrites contract_subject_identity
        (map (written_subject D (l2p_tenant_id l2p)) items) (contract_subjects db) \<and>
     filters db' = aim_overwrites filter_identity
        (concat (map (\<lambda>item. written_filters D (l2p_tenant_id l2p) (fst item) (snd item)) items))
        (filters db) \<and>
     filter_entries db' = aim_overwrites filter_entry_identity
        (concat (map (\<lambda>item. written_entries D (l2p_tenant_id l2p) (fst item) (snd item)) items))
        (filter_entries db) \<and>
     (epg_identity g \<in> epg_identity ` set (endpoint_groups db)
        \<longrightarrow> epg_identity g \<in> epg_identity ` set (endpoint_groups db'))"
proof (induction items arbitrary: g db)
  case Nil
  then show ?case by (simp add: aim_overwrites_def)
next
  case (Cons item items)
  from process_contract_create [of D l2p item g db] obtain g' db1 where
    step: "process_contract D l2p True False False item (Some g, db) = Inr (None, Some g', db1)"
    and same: "epg_identity g' = epg_identity g"
    and c1: "contracts db1 = aim_overwrite contract_identity
        (implicit_contract D (l2p_tenant_id l2p) (fst item)) (contracts db)"
    and s1: "contract_subjects db1 = aim_overwrite contract_subject_identity
        (written_subject D (l2p_tenant_id l2p) item) (contract_subjects db)"
    and f1: "filters db1 = aim_overwrites filter_identity
        (written_filters D (l2p_tenant_id l2p) (fst item) (snd item)) (filters db)"
    and e1: "filter_entries db1 = aim_overwrites filter_entry_identity
        (written_entries D (l2p_tenant_id l2p) (fst item) (snd item)) (filter_entries db)"
    and g1: "endpoint_groups db1 = aim_overwrite epg_identity g' (endpoint_groups db)"
    by blast
  from Cons.IH [of g' db1] obtain db' where
    rest: "process_contracts D l2p True False False items (Some g', db1) = Inr (None, db')"
    and c2: "contracts db' = aim_overwrites contract_identity
        (map (\<lambda>item. implicit_contract D (l2p_tenant_id l2p) (fst item)) items)
        (contracts db1)"
    and s2: "contract_subjects db' = aim_overwrites contract_subject_identity
        (map (written_subject D (l2p_tenant_id l2p)) items) (contract_subjects db1)"
    and f2: "filters db' = aim_overwrites filter_identity
        (concat (map (\<lambda>item. written_filters D (l2p_tenant_id l2p) (fst item) (snd item)) items))
        (filters db1)"
    and e2: "filter_entries db' = aim_overwrites filter_entry_identity
        (concat (map (\<lambda>item. written_entries D (l2p_tenant_id l2p) (fst item) (snd item)) items))
        (filter_entries db1)"
    and g2: "epg_identity g' \<in> epg_identity ` set (endpoint_groups db1)
        \<longrightarrow> epg_identity g' \<in> epg_identity ` set (endpoint_groups db')"
    by blast
  have run: "process_contracts D l2p True False False (item # items) (Some g, db) = Inr (None, db')"
    by (simp add: step rest)
  have "epg_identity g' \<in> epg_identity ` set (endpoint_groups db1)"
    by (simp add: g1 overwrite_keys)
  with g2 same have present: "epg_identity g \<in> epg_identity ` set (endpoint_groups db')"
    by simp
  show ?case
    using run present
    by (simp add: c2 c1 s2 s1 f2 f1 e2 e1 overwrites_Cons overwrites_append)
qed

text \<open>Without the default group in the store the creation mode raises.\<close>

lemma process_contracts_without_group:
  "process_contracts D l2p True False False (item # items) (None, db) = Inl AttributeError"
proof -
  obtain pfx entries where item: "item = (pfx, entries)" by (cases item)
  show ?thesis
    by (simp add: item process_contract_def add_contracts_for_epg_def aim_create_overwrite
        Let_def)
qed

lemma default_epg_contracts_not_empty: "\<exists>item items. default_epg_contracts D = item # items"
  by (simp add: default_epg_contracts_def)

text \<open>
  C8. When the creation procedure of the tenant's shared implicit contracts has run,
  running it again succeeds and leaves the contracts, the contract subjects, the
  filters and the filter entries of the store exactly as the first run left them.
\<close>

theorem implicit_contracts_creation_idempotent:
  assumes "create_implicit_contracts_and_configure_default_epg D l2p epg_dn db = Inr db1"
  shows "\<exists>db2. create_implicit_contracts_and_configure_default_epg D l2p epg_dn db1 = Inr db2 \<and>
    contracts db2 = contracts db1 \<and>
    contract_subjects db2 = contract_subjects db1 \<and>
    filters db2 = filters db1 \<and>
    filter_entries db2 = filter_entries db1"
proof -
  let ?items = "default_epg_contracts D"
  let ?find = "\<lambda>db. find (\<lambda>g. epg_identity g = epg_dn) (endpoint_groups db)"
  obtain item items where items: "?items = item # items"
    using default_epg_contracts_not_empty by blast
  from assms obtain ret where
    first: "process_contracts D l2p True False False ?items (?find db, db) = Inr (ret, db1)"
    by (auto simp: create_implicit_contracts_and_configure_default_epg_def
        process_contracts_for_default_epg_def and_then_Inr_iff)
  have "?find db \<noteq> None"
  proof
    assume none: "?find db = None"
    from first have "process_contracts D l2p True False False (item # items) (None, db)
        = Inr (ret, db1)"
      unfolding items none .
    then show False
      unfolding process_contracts_without_group by simp
  qed
  then obtain g where g: "?find db = Some g" by blast
  then have gid: "epg_identity g = epg_dn" and gin: "g \<in> set (endpoint_groups db)"
    by (auto simp: find_Some_iff)
  from process_contracts_create [of D l2p ?items g db] first g obtain
    c1: "contracts db1 = aim_overwrites contract_identity
        (map (\<lambda>item. implicit_contract D (l2p_tenant_id l2p) (fst item)) ?items)
        (contracts db)"
    and s1: "contract_subjects db1 = aim_overwrites contract_subject_identity
        (map (written_subject D (l2p_tenant_id l2p)) ?items) (contract_subjects db)"
    and f1: "filters db1 = aim_overwrites filter_identity
        (concat (map (\<lambda>item. written_filters D (l2p_tenant_id l2p) (fst item) (snd item)) ?items))
        (filters db)"
    and e1: "filter_entries db1 = aim_overwrites filter_entry_identity
        (concat (map (\<lambda>item. written_entries D (l2p_tenant_id l2p) (fst item) (snd item)) ?items))
        (filter_entries db)"
    and p1: "epg_identity g \<in> epg_identity ` set (endpoint_groups db)
        \<longrightarrow> epg_identity g \<in> epg_identity ` set (endpoint_groups db1)"
    by auto
  from p1 gin gid have "\<exists>row \<in> set (endpoint_groups db1). epg_identity row = epg_dn"
    by auto
  then have "?find db1 \<noteq> None"
    by (auto simp: find_None_iff)
  then obtain g1 where g1: "?find db1 = Some g1" by blast
  from process_contracts_create [of D l2p ?items g1 db1] obtain db2 where
    second: "process_contracts D l2p True False False ?items (Some g1, db1) = Inr (None, db2)"
    and c2: "contracts db2 = aim_overwrites contract_identity
        (map (\<lambda>item. implicit_contract D (l2p_tenant_id l2p) (fst item)) ?items)
        (contracts db1)"
    and s2: "contract_subjects db2 = aim_overwrites contract_subject_identity
        (map (written_subject D (l2p_tenant_id l2p)) ?items) (contract_subjects db1)"
    and f2: "filters db2 = aim_overwrites filter_identity
        (concat (map (\<lambda>item. written_filters D (l2p_tenant_id l2p) (fst item) (snd item)) ?items))
        (filters db1)"
    and e2: "filter_entries db2 = aim_overwrites filter_entry_identity
        (concat (map (\<lambda>item. written_entries D (l2p_tenant_id l2p) (fst item) (snd item)) ?items))
        (filter_entries db1)"
    by blast
  have "create_implicit_contracts_and_configure_default_epg D l2p epg_dn db1 = Inr db2"
    by (simp add: create_implicit_contracts_and_configure_default_epg_def
        process_contracts_for_default_epg_def g1 second)
  moreover have "contracts db2 = contracts db1"
    by (simp only: c2 c1 overwrites_idempotent)
  moreover have "contract_subjects db2 = contract_subjects db1"
    by (simp only: s2 s1 overwrites_idempotent)
  moreover have "filters db2 = filters db1"
    by (simp only: f2 f1 overwrites_idempotent)
  moreover have "filter_entries db2 = filter_entries db1"
    by (simp only: e2 e1 overwrites_idempotent)
  ultimately show ?thesis by blast
qed

theorem implicit_contracts_creation_idempotent_witness:
  "create_implicit_contracts_and_configure_default_epg sample_driver l2p1
     (default_epg_dn net1) store_with_default_epg = Inr implicit_store \<and>
   (\<exists>db2. create_implicit_contracts_and_configure_default_epg sample_driver l2p1
            (default_epg_dn net1) implicit_store = Inr db2 \<and>
          contracts db2 = contracts implicit_store \<and>
          contract_subjects db2 = contract_subjects implicit_store \<and>
          filters db2 = filters implicit_store \<and>
          filter_entries db2 = filter_entries implicit_store)"
proof -
  have first: "create_implicit_contracts_and_configure_default_epg sample_driver l2p1
     (default_epg_dn net1) store_with_default_epg = Inr implicit_store"
    by code_simp
  from implicit_contracts_creation_idempotent [OF first] first show ?thesis by simp
qed

text \<open>
  The deletion mode never touches the table of the groups: whatever it deletes, the
  default group keeps the contract names that the creation attached to it.
\<close>

lemma process_entries_delete_groups:
  "process_entries D t pfx False True entries (names, db) = Inr (names', db') \<Longrightarrow>
   endpoint_groups db' = endpoint_groups db"
proof (induction entries arbitrary: names db)
  case Nil
  then show ?case by simp
next
  case (Cons entry entries)
  obtain k v where entry: "entry = (k, v)" by (cases entry)
  let ?flt = "implicit_filter D t pfx k"
  let ?db2 = "delete_aim_filter_entries db ?flt"
  let ?db3 = "?db2\<lparr>filters := aim_delete filter_identity (filters ?db2) ?flt\<rparr>"
  have step: "process_entry D t pfx False True entry (names, db) = Inr (names, ?db3)"
    by (simp add: process_entry_def entry Let_def)
  from Cons.prems have "process_entries D t pfx False True entries (names, ?db3)
      = Inr (names', db')"
    by (simp add: step)
  from Cons.IH [OF this] show ?case
    by (simp add: delete_aim_filter_entries_def)
qed

lemma process_contract_delete_groups:
  "process_contract D l2p False True False item (g, db) = Inr (ret, g', db') \<Longrightarrow>
   endpoint_groups db' = endpoint_groups db"
proof -
  assume run: "process_contract D l2p False True False item (g, db) = Inr (ret, g', db')"
  obtain pfx entries where item: "item = (pfx, entries)" by (cases item)
  from run obtain names db3 where
    inner: "process_entries D (l2p_tenant_id l2p) pfx False True entries ([], db)
        = Inr (names, db3)"
    and db': "endpoint_groups db' = endpoint_groups db3"
    by (auto simp: item process_contract_def Let_def and_then_Inr_iff
        delete_aim_contract_subject_def)
  from process_entries_delete_groups [OF inner] db' show ?thesis by simp
qed

lemma process_contracts_delete_groups:
  "process_contracts D l2p False True False items (g, db) = Inr (ret, db') \<Longrightarrow>
   endpoint_groups db' = endpoint_groups db"
proof (induction items arbitrary: g db)
  case Nil
  then show ?case by simp
next
  case (Cons item items)
  from Cons.prems obtain r1 g1 db1 where
    step: "process_contract D l2p False True False item (g, db) = Inr (r1, g1, db1)"
    by (auto split: sum.splits)
  have groups1: "endpoint_groups db1 = endpoint_groups db"
    using step by (rule process_contract_delete_groups)
  show ?case
  proof (cases r1)
    case None
    with Cons.prems step
    have "process_contracts D l2p False True False items (g1, db1) = Inr (ret, db')"
      by simp
    from Cons.IH [OF this] groups1 show ?thesis by simp
  next
    case (Some res)
    with Cons.prems step have "db' = db1" by simp
    with groups1 show ?thesis by simp
  qed
qed

lemma delete_implicit_contracts_keeps_groups:
  "delete_implicit_contracts_and_unconfigure_default_epg D l2p epg_dn db = Inr db' \<Longrightarrow>
   endpoint_groups db' = endpoint_groups db"
  by (auto simp: delete_implicit_contracts_and_unconfigure_default_epg_def
      process_contracts_for_default_epg_def and_then_Inr_iff
      dest: process_contracts_delete_groups)

text \<open>
  C5, at the only bridging domain of a tenant. Its creation finds the count 1, creates
  the shared implicit contracts and attaches them to the default group. Its deletion
  finds the count 1 again and deletes the contracts, their subjects, filters and filter
  entries; the default group is written by no step of the deletion and still names the
  deleted contracts as provided and consumed.
\<close>

theorem last_l2_policy_delete_leaves_contract_names:
  "create_l2_policy_precommit sample_driver sample_ptg_plugin sample_l2p_plugin
     first_l2p_context = Inr created_l2p_context \<and>
   delete_l2_policy_precommit sample_driver sample_ptg_plugin sample_l2p_plugin
     created_l2p_context = Inr deleted_l2p_context \<and>
   contracts (lctx_aim deleted_l2p_context) = [] \<and>
   contract_subjects (lctx_aim deleted_l2p_context) = [] \<and>
   filters (lctx_aim deleted_l2p_context) = [] \<and>
   filter_entries (lctx_aim deleted_l2p_context) = [] \<and>
   endpoint_groups (lctx_aim deleted_l2p_context) = [configured_default_epg] \<and>
   provided_contract_names configured_default_epg = [''Svc-t1'', ''implicit-t1''] \<and>
   consumed_contract_names configured_default_epg = [''implicit-t1'']"
proof -
  have "create_l2_policy_precommit sample_driver sample_ptg_plugin sample_l2p_plugin
     first_l2p_context = Inr created_l2p_context"
    by code_simp
  moreover have "delete_l2_policy_precommit sample_driver sample_ptg_plugin sample_l2p_plugin
     created_l2p_context = Inr deleted_l2p_context"
    by code_simp
  ultimately show ?thesis
    by (simp add: deleted_l2p_context_def empty_aim_db_def configured_default_epg_def)
qed

section \<open>Creation of a routing domain\<close>

text \<open>
  The steps of \<^verbatim>\<open>create_l3_policy_precommit\<close> after the validation: which fields of
  the row each step can change, and what the loop over several subnet pools returns.
\<close>

lemma set_row_ascp_fields [simp]:
  "row_ip_pool (set_row_ascp k v row) = row_ip_pool row"
  "row_subnet_prefix_length (set_row_ascp k v row) = row_subnet_prefix_length row"
  "row_ip_version (set_row_ascp k v row) = row_ip_version row"
  "row_ascp k (set_row_ascp k v row) = v"
  by (cases k; simp add: set_row_ascp_def row_ascp_def)+

















text \<open>
  C7. Creation of a routing domain with both a v4 and a v6 address scope always fails,
  and the state at the failure is the state at the call: nothing was allocated and
  nothing was written. The error is
  \<^verbatim>\<open>SimultaneousV4V6AddressScopesNotSupportedOnAimDriver\<close> when the check of the
  external segments, which runs first, passes; when that check raises, its error is
  the one raised.
\<close>

theorem both_address_scopes_rejected:
  assumes "truthy (address_scope_v4_id (l3_current s))"
    and "truthy (address_scope_v6_id (l3_current s))"
  shows "(\<exists>e. create_l3_policy_precommit P s = (Some e, s)) \<and>
    (check_l3policy_ext_segment P (l3_world s) (l3_current s) = None \<longrightarrow>
       create_l3_policy_precommit P s =
         (Some SimultaneousV4V6AddressScopesNotSupportedOnAimDriver, s)) \<and>
    (\<forall>e. check_l3policy_ext_segment P (l3_world s) (l3_current s) = Some e \<longrightarrow>
       create_l3_policy_precommit P s = (Some e, s))"
  using assms
  by (cases "check_l3policy_ext_segment P (l3_world s) (l3_current s)")
     (simp_all add: create_l3_policy_precommit_def l3_validate_def)

theorem both_address_scopes_rejected_witness:
  "create_l3_policy_precommit sample_l3p_plugin (l3_context_of both_scopes_l3p) =
     (Some SimultaneousV4V6AddressScopesNotSupportedOnAimDriver, l3_context_of both_scopes_l3p) \<and>
   l3w_allocated (l3_world (l3_context_of both_scopes_l3p)) = []"
proof -
  let ?s = "l3_context_of both_scopes_l3p"
  have v4: "truthy (address_scope_v4_id (l3_current ?s))" by code_simp
  have v6: "truthy (address_scope_v6_id (l3_current ?s))" by code_simp
  have seg: "check_l3policy_ext_segment sample_l3p_plugin (l3_world ?s) (l3_current ?s) = None"
    by code_simp
  have none: "l3w_allocated (l3_world ?s) = []" by code_simp
  from both_address_scopes_rejected [OF v4 v6, of sample_l3p_plugin] seg none
  show ?thesis by simp
qed

theorem external_segment_error_first_counterexample:
  "truthy (address_scope_v4_id both_scopes_two_addresses_l3p) \<and>
   truthy (address_scope_v6_id both_scopes_two_addresses_l3p) \<and>
   fst (create_l3_policy_precommit sample_l3p_plugin
          (l3_context_of both_scopes_two_addresses_l3p)) =
     Some OnlyOneAddressIsAllowedPerExternalSegment \<and>
   fst (create_l3_policy_precommit sample_l3p_plugin
          (l3_context_of both_scopes_two_addresses_l3p)) \<noteq>
     Some SimultaneousV4V6AddressScopesNotSupportedOnAimDriver"
  by code_simp

subsection \<open>The subnet pools of a routing domain\<close>













end
